theory Spec2Isabelle
  imports Main "HOL-Library.AList"
begin

section \<open>Python and Django preliminaries\<close>

text \<open>
  ColdFront is a Django application. The exceptions that the modelled code can raise are
  values of \<open>py_exception\<close>; a function that can raise returns \<open>py_exception + 'a\<close>
  with \<open>Inl\<close> for the exception. Dates are day numbers, so that
  \<open>d + relativedelta(days=n)\<close> is \<open>d + n\<close>.
\<close>

datatype py_exception =
    ValueError
  | TypeError
  | AttributeError
  | KeyError
  | ZeroDivisionError
  | OverflowError
  | UnboundLocalError
  | PageNotAnInteger
  | EmptyPage
  | DoesNotExist
  | MultipleObjectsReturned

datatype validation_error = ValidationError string

type_synonym date = int

text \<open>Truthiness of a Python \<open>str\<close> or \<open>None\<close> value, as \<open>if x:\<close> tests it.\<close>

definition truthy_str :: "string option \<Rightarrow> bool" where
  "truthy_str v = (case v of None \<Rightarrow> False | Some s \<Rightarrow> s \<noteq> [])"

text \<open>\<open>s.split(c)\<close> for a one-character separator: never the empty list.\<close>

fun str_split :: "char \<Rightarrow> string \<Rightarrow> string list" where
  "str_split c [] = [[]]"
| "str_split c (x # xs) =
     (if x = c then [] # str_split c xs
      else (case str_split c xs of
              [] \<Rightarrow> [[x]]
            | p # ps \<Rightarrow> (x # p) # ps))"

fun str_startswith :: "string \<Rightarrow> string \<Rightarrow> bool" where
  "str_startswith s [] = True"
| "str_startswith [] (p # ps) = False"
| "str_startswith (c # cs) (p # ps) = (c = p \<and> str_startswith cs ps)"

text \<open>\<open>needle in haystack\<close> on two strings: the needle occurs as a contiguous run.\<close>

fun str_contains :: "string \<Rightarrow> string \<Rightarrow> bool" where
  "str_contains [] needle = (needle = [])"
| "str_contains (c # cs) needle = (str_startswith (c # cs) needle \<or> str_contains cs needle)"

text \<open>
  \<open>xs[bottom:top]\<close> with integer bounds: a negative bound counts from the end, and both
  are clamped to the list.
\<close>

definition slice_bound :: "nat \<Rightarrow> int \<Rightarrow> nat" where
  "slice_bound n i = (if i < 0 then nat (max 0 (int n + i)) else min n (nat i))"

definition py_slice :: "'a list \<Rightarrow> int \<Rightarrow> int \<Rightarrow> 'a list" where
  "py_slice xs start stop =
     (let b = slice_bound (length xs) start; t = slice_bound (length xs) stop
      in take (t - b) (drop b xs))"

text \<open>
  A Python \<open>float\<close> is an IEEE 754 double; the finite one with the value
  \<open>mantissa * 2 ** exponent\<close> is kept as the two integers. \<open>k.bit_length()\<close> is the
  number of binary digits of a positive \<open>k\<close>.
\<close>

record py_float =
  mantissa :: int
  exponent :: int

function bit_length :: "int \<Rightarrow> nat" where
  "bit_length k = (if k \<le> 0 then 0 else Suc (bit_length (k div 2)))"
  by pat_completeness auto
termination by (relation "measure nat") auto

declare bit_length.simps [simp del]

text \<open>The integer nearest to \<open>n / d\<close> for a positive \<open>d\<close>, a tie going to the even one.\<close>

definition round_half_even :: "int \<Rightarrow> int \<Rightarrow> int" where
  "round_half_even n d =
     (let q = n div d; r = n mod d
      in if 2 * r > d \<or> (2 * r = d \<and> odd q) then q + 1 else q)"

text \<open>
  \<open>a / b\<close> on two \<open>int\<close>: the double nearest to the quotient, a tie going to the even
  mantissa. With \<open>2 ** k <= |a| / |b| < 2 ** (k + 1)\<close> the double has 53 binary digits
  from \<open>2 ** k\<close> down, and none below \<open>2 ** -1074\<close>, so that a quotient of at most
  \<open>2 ** -1075\<close> becomes \<open>0.0\<close>. A result of \<open>2 ** 1024\<close> or more raises
  \<open>OverflowError\<close>, and \<open>b == 0\<close> raises \<open>ZeroDivisionError\<close>.
\<close>

definition int_true_divide :: "int \<Rightarrow> int \<Rightarrow> py_exception + py_float" where
  "int_true_divide a b =
     (if b = 0 then Inl ZeroDivisionError
      else if a = 0 then Inr \<lparr>mantissa = 0, exponent = 0\<rparr>
      else
        (let x = \<bar>a\<bar>; y = \<bar>b\<bar>;
             d = int (bit_length x) - int (bit_length y);
             k = (if y * 2 ^ nat d \<le> x * 2 ^ nat (- d) then d else d - 1);
             e = max (k - 52) (- 1074);
             m = round_half_even (x * 2 ^ nat (- e)) (y * 2 ^ nat e)
         in if int (bit_length m) + e > 1024 then Inl OverflowError
            else Inr \<lparr>mantissa = (if (a < 0) = (b < 0) then m else - m), exponent = e\<rparr>))"

text \<open>\<open>math.ceil(f)\<close>: the least integer that is not below the float.\<close>

definition math_ceil :: "py_float \<Rightarrow> int" where
  "math_ceil f =
     (if exponent f \<ge> 0 then mantissa f * 2 ^ nat (exponent f)
      else - ((- mantissa f) div 2 ^ nat (- exponent f)))"


section \<open>The relational data\<close>

text \<open>
  The rows are those of the models the views and forms under study read and write. A
  foreign key is the primary key of the row it points to. A status is the \<open>name\<close> of the
  row of the status-choice lookup table it points to; the lookup tables are the fixed
  tables of the application's default data, so \<open>XStatusChoice.objects.get(name=n)\<close> is
  the row named \<open>n\<close>.
\<close>

record user =
  user_pk :: nat
  username :: string
  email :: string
  is_superuser :: bool
  is_staff :: bool

record project =
  proj_pk :: nat
  proj_pi :: nat
  proj_status :: string
  institution :: string

record project_user =
  pu_pk :: nat
  pu_project :: nat
  pu_user :: nat
  pu_role :: string
  pu_status :: string

record allocation =
  alloc_pk :: nat
  alloc_project :: nat
  alloc_resources :: "nat list"
  alloc_status :: string
  start_date :: "date option"
  end_date :: "date option"
  description :: string
  is_locked :: bool
  is_changeable :: bool

record allocation_user =
  au_pk :: nat
  au_allocation :: nat
  au_user :: nat
  au_status :: string

record allocation_attribute =
  attr_pk :: nat
  attr_allocation :: nat
  attr_type :: string
  attr_value :: string

record allocation_change_request =
  acr_pk :: nat
  acr_allocation :: nat
  acr_status :: string
  end_date_extension :: int
  justification :: string
  acr_notes :: string

record allocation_attribute_change_request =
  aacr_pk :: nat
  aacr_change_request :: nat
  aacr_attribute :: nat
  new_value :: string

text \<open>
  Signals sent (the sender class is not recorded), messages of the \<open>messages\<close> framework
  and mails handed to \<open>coldfront.core.utils.mail\<close>, each in the order of the calls.
\<close>

datatype signal =
    project_archive nat
  | project_remove_user nat
  | allocation_activate nat
  | allocation_disable nat
  | allocation_activate_user nat
  | allocation_remove_user nat
  | allocation_attribute_changed nat nat
  | allocation_change_approved nat nat

datatype message_level = INFO | SUCCESS | ERROR

datatype mail =
    allocation_customer_email nat string string
  | allocation_admin_email nat string string

record state =
  projects :: "project list"
  project_users :: "project_user list"
  allocations :: "allocation list"
  allocation_users :: "allocation_user list"
  allocation_attributes :: "allocation_attribute list"
  allocation_change_requests :: "allocation_change_request list"
  allocation_attribute_change_requests :: "allocation_attribute_change_request list"
  sent_signals :: "signal list"
  messages :: "(message_level \<times> string) list"
  sent_mail :: "mail list"

text \<open>
  What a view hands back: \<open>redirect(obj)\<close> goes to \<open>obj.get_absolute_url()\<close>,
  \<open>reverse(name, kwargs={"pk": pk})\<close> is kept as the name and the key. \<open>Http404\<close> and
  \<open>PermissionDenied\<close> are the responses Django makes of the two exceptions. A view
  returns \<open>py_exception + http_response\<close> and the state it leaves; with \<open>Inl\<close> the state
  is the one reached when the exception was raised.
\<close>

datatype location =
    absolute_url_of_allocation nat
  | absolute_url_of_project nat
  | reverse string "nat option"
  | login_url

datatype http_response =
    HttpResponseRedirect location
  | HttpResponseBadRequest string
  | Http404
  | PermissionDenied
  | TemplateResponse string

type_synonym view_result = "(py_exception + http_response) \<times> state"

definition send_signal :: "signal \<Rightarrow> state \<Rightarrow> state" where
  "send_signal sig st = st\<lparr>sent_signals := sent_signals st @ [sig]\<rparr>"

definition add_message :: "message_level \<Rightarrow> string \<Rightarrow> state \<Rightarrow> state" where
  "add_message lvl msg st = st\<lparr>messages := messages st @ [(lvl, msg)]\<rparr>"

definition send_mail :: "mail \<Rightarrow> state \<Rightarrow> state" where
  "send_mail m st = st\<lparr>sent_mail := sent_mail st @ [m]\<rparr>"

text \<open>
  \<open>Model.objects.get(pk=pk)\<close> and \<open>get_object_or_404(Model, pk=pk)\<close>: the row with that
  primary key, if any. \<open>obj.save()\<close> on a table: the row with the object's primary key is
  overwritten, and the object is inserted when there is none. \<open>queryset.get()\<close> wants
  exactly one row.
\<close>

definition get_by_pk :: "('r \<Rightarrow> nat) \<Rightarrow> 'r list \<Rightarrow> nat \<Rightarrow> 'r option" where
  "get_by_pk pk_of rows pk = find (\<lambda>r. pk_of r = pk) rows"

definition save_row :: "('r \<Rightarrow> nat) \<Rightarrow> 'r \<Rightarrow> 'r list \<Rightarrow> 'r list" where
  "save_row pk_of obj rows =
     (if pk_of obj \<in> set (map pk_of rows)
      then map (\<lambda>r. if pk_of r = pk_of obj then obj else r) rows
      else rows @ [obj])"

definition queryset_get :: "'r list \<Rightarrow> py_exception + 'r" where
  "queryset_get rows =
     (case rows of
        [] \<Rightarrow> Inl DoesNotExist
      | [r] \<Rightarrow> Inr r
      | _ \<Rightarrow> Inl MultipleObjectsReturned)"

definition save_project :: "project \<Rightarrow> state \<Rightarrow> state" where
  "save_project obj st = st\<lparr>projects := save_row proj_pk obj (projects st)\<rparr>"

definition save_project_user :: "project_user \<Rightarrow> state \<Rightarrow> state" where
  "save_project_user obj st = st\<lparr>project_users := save_row pu_pk obj (project_users st)\<rparr>"

definition save_allocation :: "allocation \<Rightarrow> state \<Rightarrow> state" where
  "save_allocation obj st = st\<lparr>allocations := save_row alloc_pk obj (allocations st)\<rparr>"

definition save_allocation_user :: "allocation_user \<Rightarrow> state \<Rightarrow> state" where
  "save_allocation_user obj st =
     st\<lparr>allocation_users := save_row au_pk obj (allocation_users st)\<rparr>"

text \<open>\<open>project.allocation_set\<close>, \<open>project.projectuser_set\<close>, \<open>allocation.allocationuser_set\<close>.\<close>

definition allocation_set :: "state \<Rightarrow> project \<Rightarrow> allocation list" where
  "allocation_set st p = filter (\<lambda>a. alloc_project a = proj_pk p) (allocations st)"

definition projectuser_set :: "state \<Rightarrow> project \<Rightarrow> project_user list" where
  "projectuser_set st p = filter (\<lambda>pu. pu_project pu = proj_pk p) (project_users st)"

definition allocationuser_set :: "state \<Rightarrow> allocation \<Rightarrow> allocation_user list" where
  "allocationuser_set st a = filter (\<lambda>au. au_allocation au = alloc_pk a) (allocation_users st)"


section \<open>\<open>views.project_archive_project_view.ProjectArchiveProjectView\<close>\<close>

text \<open>The \<open>for\<close> loop of \<open>post\<close> over the allocations the query returned.\<close>

fun archive_allocations :: "allocation list \<Rightarrow> date \<Rightarrow> state \<Rightarrow> state" where
  "archive_allocations [] now st = st"
| "archive_allocations (a # rest) now st =
     archive_allocations rest now
       (save_allocation (a\<lparr>alloc_status := ''Expired'', end_date := Some now\<rparr>) st)"

text \<open>\<open>post\<close>, with the day of \<open>datetime.datetime.now()\<close> and \<open>kwargs["pk"]\<close>.\<close>

definition ProjectArchiveProjectView_post :: "date \<Rightarrow> nat \<Rightarrow> state \<Rightarrow> view_result" where
  "ProjectArchiveProjectView_post now pk st =
     (case get_by_pk proj_pk (projects st) pk of
        None \<Rightarrow> (Inr Http404, st)
      | Some p \<Rightarrow>
          (let proj = p\<lparr>proj_status := ''Archived''\<rparr>;
               st1 = save_project proj st;
               st2 = send_signal (project_archive (proj_pk proj)) st1;
               active = filter (\<lambda>a. alloc_status a = ''Active'') (allocation_set st2 proj);
               st3 = archive_allocations active now st2
           in (Inr (HttpResponseRedirect (reverse ''project-detail'' (Some (proj_pk proj)))),
               st3)))"


section \<open>\<open>utils.user_management_utils\<close>\<close>

text \<open>
  \<open>obj_class\<close> is the sender of the signals, \<open>None\<close> by default. With \<open>obj_class\<close>
  the functions call \<open>signal.send(sender=obj_class, ...)\<close>, and without it
  \<open>signal.send(...)\<close>, which lacks the positional argument \<open>sender\<close> that Django's
  \<open>Signal.send\<close> requires and raises \<open>TypeError\<close>. A function returns the exception or
  its value, and the state it leaves.

  \<open>remove_user_from_allocation\<close>: the loop over the user's active rows of the
  allocation.
\<close>

fun remove_allocation_users ::
  "allocation_user list \<Rightarrow> bool \<Rightarrow> string option \<Rightarrow> state \<Rightarrow> (py_exception + unit) \<times> state" where
  "remove_allocation_users [] send_signals obj_class st = (Inr (), st)"
| "remove_allocation_users (au # rest) send_signals obj_class st =
     (let st1 = save_allocation_user (au\<lparr>au_status := ''Removed''\<rparr>) st
      in if send_signals
         then (if obj_class \<noteq> None
               then remove_allocation_users rest send_signals obj_class
                      (send_signal (allocation_remove_user (au_pk au)) st1)
               else (Inl TypeError, st1))
         else remove_allocation_users rest send_signals obj_class st1)"

definition remove_user_from_allocation ::
  "allocation \<Rightarrow> user \<Rightarrow> bool \<Rightarrow> string option \<Rightarrow> state \<Rightarrow> (py_exception + unit) \<times> state" where
  "remove_user_from_allocation a user_obj send_signals obj_class st =
     remove_allocation_users
       (filter (\<lambda>au. au_user au = user_pk user_obj \<and> au_status au \<in> set [''Active''])
          (allocationuser_set st a))
       send_signals obj_class st"

text \<open>The loop of \<open>remove_user_from_project\<close> over \<open>allocations_to_remove_user_from\<close>.\<close>

fun remove_user_from_allocations ::
  "allocation list \<Rightarrow> user \<Rightarrow> bool \<Rightarrow> string option \<Rightarrow> state \<Rightarrow> (py_exception + unit) \<times> state" where
  "remove_user_from_allocations [] user_obj send_signals obj_class st = (Inr (), st)"
| "remove_user_from_allocations (a # rest) user_obj send_signals obj_class st =
     (case remove_user_from_allocation a user_obj send_signals obj_class st of
        (Inl e, st1) \<Rightarrow> (Inl e, st1)
      | (Inr u, st1) \<Rightarrow> remove_user_from_allocations rest user_obj send_signals obj_class st1)"

text \<open>
  \<open>remove_user_from_project\<close>; \<open>project_obj.pi == user_obj\<close> compares two rows of the
  user table, which are equal when their primary keys are.
\<close>

definition remove_user_from_project ::
  "project \<Rightarrow> user \<Rightarrow> bool \<Rightarrow> string option \<Rightarrow> state \<Rightarrow> (py_exception + bool) \<times> state" where
  "remove_user_from_project project_obj user_obj send_signals obj_class st =
     (if proj_pi project_obj = user_pk user_obj then (Inr False, st)
      else if filter (\<lambda>pu. pu_user pu = user_pk user_obj \<and> pu_status pu = ''Active'')
                (projectuser_set st project_obj) \<noteq> []
      then (case queryset_get (filter (\<lambda>pu. pu_user pu = user_pk user_obj)
                                 (projectuser_set st project_obj)) of
              Inl e \<Rightarrow> (Inl e, st)
            | Inr project_user_obj \<Rightarrow>
                (let st1 = save_project_user (project_user_obj\<lparr>pu_status := ''Removed''\<rparr>) st;
                     sent = (if send_signals
                             then (if obj_class \<noteq> None
                                   then Inr (send_signal
                                               (project_remove_user (pu_pk project_user_obj)) st1)
                                   else Inl TypeError)
                             else Inr st1)
                 in case sent of
                      Inl e \<Rightarrow> (Inl e, st1)
                    | Inr st2 \<Rightarrow>
                        (let allocations_to_remove_user_from =
                               filter (\<lambda>a. alloc_status a
                                              \<in> set [''Active'', ''New'', ''Renewal Requested''])
                                 (allocation_set st2 project_obj)
                         in case remove_user_from_allocations allocations_to_remove_user_from
                                   user_obj send_signals obj_class st2 of
                              (Inl e, st3) \<Rightarrow> (Inl e, st3)
                            | (Inr u, st3) \<Rightarrow> (Inr True, st3))))
      else (Inr False, st))"


section \<open>\<open>institution_utils.determine_automated_institution_choice\<close>\<close>

text \<open>
  The \<open>try\<close> block: \<open>_, pi_email_domain = email.split("@")\<close> raises \<open>ValueError\<close>
  unless the split has exactly two parts, and the handler leaves \<open>None\<close>.
\<close>

definition pi_email_domain_of :: "string \<Rightarrow> string option" where
  "pi_email_domain_of addr =
     (case str_split CHR ''@'' addr of
        [_, d] \<Rightarrow> Some d
      | _ \<Rightarrow> None)"

text \<open>
  \<open>institution_map.get(pi_email_domain)\<close>: the map is a \<open>dict\<close> with \<open>str\<close> keys, kept
  as the list of its items in iteration order; the key \<open>None\<close> is never in it.
\<close>

definition dict_get :: "(string \<times> string) list \<Rightarrow> string option \<Rightarrow> string option" where
  "dict_get d k = (case k of None \<Rightarrow> None | Some s \<Rightarrow> map_of d s)"

text \<open>
  The \<open>for\<close> loop over \<open>institution_map.items()\<close>. The test
  \<open>institution_email_domain in pi_email_domain\<close> raises \<open>TypeError\<close> when
  \<open>pi_email_domain\<close> is \<open>None\<close>. \<open>Inr None\<close>: the loop ended without a \<open>return\<close>.
\<close>

fun indirect_institution :: "(string \<times> string) list \<Rightarrow> string option \<Rightarrow> py_exception + string option" where
  "indirect_institution [] pi_email_domain = Inr None"
| "indirect_institution ((k, v) # rest) None = Inl TypeError"
| "indirect_institution ((k, v) # rest) (Some d) =
     (if str_contains d k then Inr (Some v) else indirect_institution rest (Some d))"

text \<open>
  The function gets the project and the row \<open>project.pi\<close>. It returns the value returned
  and the project object as the call leaves it (nothing is saved).
\<close>

definition determine_automated_institution_choice ::
  "project \<Rightarrow> user \<Rightarrow> (string \<times> string) list \<Rightarrow> py_exception + (string \<times> project)" where
  "determine_automated_institution_choice proj pi institution_map =
     (let pi_email_domain = pi_email_domain_of (email pi);
          direct_institution_match = dict_get institution_map pi_email_domain
      in if truthy_str direct_institution_match
         then Inr (the direct_institution_match,
                   proj\<lparr>institution := the direct_institution_match\<rparr>)
         else (case indirect_institution institution_map pi_email_domain of
                 Inl e \<Rightarrow> Inl e
               | Inr (Some indirect_institution_match) \<Rightarrow>
                   Inr (indirect_institution_match,
                        proj\<lparr>institution := indirect_institution_match\<rparr>)
               | Inr None \<Rightarrow> Inr (institution proj, proj)))"


section \<open>\<open>view_helper_utils.handle_pagination\<close>\<close>

text \<open>
  Django's \<open>Paginator\<close> with its defaults (\<open>orphans=0\<close>, \<open>allow_empty_first_page=True\<close>).
  A page number is what \<open>int(number)\<close> makes of the argument: an integer, or the failure
  that \<open>validate_number\<close> turns into \<open>PageNotAnInteger\<close>.
\<close>

datatype page_number = PageInt int | PageNoInt

record 'a paginator =
  object_list :: "'a list"
  per_page :: int

record 'a page =
  page_object_list :: "'a list"
  page_num :: int

definition paginator_count :: "'a paginator \<Rightarrow> int" where
  "paginator_count p = int (length (object_list p))"

text \<open>
  \<open>num_pages\<close>: \<open>ceil(hits / self.per_page)\<close> with \<open>hits = max(1, self.count - self.orphans)\<close>.
  The division is the one of two \<open>int\<close>, in floating point, so that the number of
  pages is 0 when the page size is so large that the quotient is rounded to \<open>0.0\<close>.
\<close>

definition paginator_num_pages :: "'a paginator \<Rightarrow> py_exception + int" where
  "paginator_num_pages p =
     (let hits = max 1 (paginator_count p - 0)
      in case int_true_divide hits (per_page p) of
           Inl e \<Rightarrow> Inl e
         | Inr f \<Rightarrow> Inr (math_ceil f))"

definition paginator_validate_number :: "'a paginator \<Rightarrow> page_number \<Rightarrow> py_exception + int" where
  "paginator_validate_number p number =
     (case number of
        PageNoInt \<Rightarrow> Inl PageNotAnInteger
      | PageInt n \<Rightarrow>
          if n < 1 then Inl EmptyPage
          else (case paginator_num_pages p of
                  Inl e \<Rightarrow> Inl e
                | Inr np \<Rightarrow> if n > np then Inl EmptyPage else Inr n))"

definition paginator_page :: "'a paginator \<Rightarrow> page_number \<Rightarrow> py_exception + 'a page" where
  "paginator_page p number =
     (case paginator_validate_number p number of
        Inl e \<Rightarrow> Inl e
      | Inr n \<Rightarrow>
          (let bottom = (n - 1) * per_page p;
               top0 = bottom + per_page p;
               top1 = (if top0 + 0 \<ge> paginator_count p then paginator_count p else top0)
           in Inr \<lparr>page_object_list = py_slice (object_list p) bottom top1, page_num = n\<rparr>))"

text \<open>
  The local variables of \<open>handle_pagination\<close> when its body ends: \<open>item_list\<close> has been
  rebound to the page. The parameter \<open>item_list\<close> is only read, to build the paginator.
\<close>

record 'a pagination_locals =
  local_paginator :: "'a paginator"
  local_item_list :: "'a page"

definition handle_pagination_body ::
  "page_number \<Rightarrow> 'a list \<Rightarrow> int \<Rightarrow> py_exception + 'a pagination_locals" where
  "handle_pagination_body page_arg item_list items_per_page =
     (let paginator = \<lparr>object_list = item_list, per_page = items_per_page\<rparr>;
          rebind = (\<lambda>r. case r of
                     Inl e \<Rightarrow> Inl e
                   | Inr pg \<Rightarrow> Inr \<lparr>local_paginator = paginator, local_item_list = pg\<rparr>)
      in case paginator_page paginator page_arg of
           Inr pg \<Rightarrow> rebind (Inr pg)
         | Inl PageNotAnInteger \<Rightarrow> rebind (paginator_page paginator (PageInt 1))
         | Inl EmptyPage \<Rightarrow>
             (case paginator_num_pages paginator of
                Inl e \<Rightarrow> Inl e
              | Inr np \<Rightarrow> rebind (paginator_page paginator (PageInt np)))
         | Inl e \<Rightarrow> Inl e)"

text \<open>
  The call: the body has no \<open>return\<close>, so the value is \<open>None\<close>, written \<open>()\<close>, and the
  locals are dropped.
\<close>

definition handle_pagination :: "page_number \<Rightarrow> 'a list \<Rightarrow> int \<Rightarrow> py_exception + unit" where
  "handle_pagination page_arg item_list items_per_page =
     (case handle_pagination_body page_arg item_list items_per_page of
        Inl e \<Rightarrow> Inl e
      | Inr locals \<Rightarrow> Inr ())"


section \<open>\<open>forms.AllocationUpdateForm\<close>\<close>

text \<open>
  \<open>AllocationUpdateForm.clean\<close> on the two values it reads,
  \<open>cleaned_data.get("start_date")\<close> and \<open>cleaned_data.get("end_date")\<close>: a date, or
  \<open>None\<close> for a field left empty or dropped from \<open>cleaned_data\<close>. \<open>None\<close> as result: no
  error raised. A \<open>datetime.date\<close> is always truthy.
\<close>

definition AllocationUpdateForm_clean :: "date option \<Rightarrow> date option \<Rightarrow> validation_error option" where
  "AllocationUpdateForm_clean start_d end_d =
     (case (start_d, end_d) of
        (Some s, Some e) \<Rightarrow>
          if e < s then Some (ValidationError ''End date cannot be less than start date'')
          else None
      | _ \<Rightarrow> None)"

section \<open>\<open>forms.BaseAllocationUserFormSet\<close>\<close>

text \<open>
  A form of the formset after its own cleaning: its errors, and the entries of
  \<open>cleaned_data\<close> that \<open>clean\<close> reads. \<open>user\<close> and \<open>allocation\<close> are required fields, so
  they are in \<open>cleaned_data\<close> whenever the form has no error, and \<open>clean\<close> reads them
  only when no form has one.
\<close>

datatype formset_action = ADD | REMOVE

record allocation_user_form =
  form_errors :: "string list"
  cd_selected :: bool
  cd_user :: user
  cd_allocation :: allocation
  cd_status :: string

definition prepend_form ::
  "allocation_user_form \<Rightarrow> py_exception + validation_error + allocation_user_form list
   \<Rightarrow> py_exception + validation_error + allocation_user_form list" where
  "prepend_form f r =
     (case r of
        Inl e \<Rightarrow> Inl e
      | Inr (Inl v) \<Rightarrow> Inr (Inl v)
      | Inr (Inr fs) \<Rightarrow> Inr (Inr (f # fs)))"

text \<open>
  The loop of \<open>clean\<close>. \<open>ALLOCATION_EULA_ENABLE\<close>, \<open>user.userprofile.is_pi\<close> and
  \<open>allocation.get_eula()\<close> belong to the configuration and to the models, which are not
  modelled here, and are parameters.
  \<open>allocation.project\<close> follows the foreign key. The result: an exception, the
  \<open>ValidationError\<close> raised, or the forms as the loop leaves them.
\<close>

fun clean_forms ::
  "bool \<Rightarrow> (user \<Rightarrow> bool) \<Rightarrow> (allocation \<Rightarrow> string option) \<Rightarrow> state \<Rightarrow> formset_action
   \<Rightarrow> allocation_user_form list
   \<Rightarrow> py_exception + validation_error + allocation_user_form list" where
  "clean_forms eula_enable is_pi get_eula st action [] = Inr (Inr [])"
| "clean_forms eula_enable is_pi get_eula st action (form # rest) =
     (if \<not> cd_selected form
      then prepend_form form (clean_forms eula_enable is_pi get_eula st action rest)
      else (case action of
              ADD \<Rightarrow>
                (let user_is_pending_eula =
                       (eula_enable \<and> \<not> is_pi (cd_user form)
                        \<and> truthy_str (get_eula (cd_allocation form)))
                 in prepend_form
                      (if user_is_pending_eula then form\<lparr>cd_status := ''PendingEULA''\<rparr> else form)
                      (clean_forms eula_enable is_pi get_eula st action rest))
            | REMOVE \<Rightarrow>
                (case get_by_pk proj_pk (projects st) (alloc_project (cd_allocation form)) of
                   None \<Rightarrow> Inl DoesNotExist
                 | Some p \<Rightarrow>
                     if proj_pi p = user_pk (cd_user form)
                     then Inr (Inl (ValidationError
                            ''Cannot remove the project PI from an allocation.''))
                     else prepend_form form
                            (clean_forms eula_enable is_pi get_eula st action rest))))"

definition BaseAllocationUserFormSet_clean ::
  "bool \<Rightarrow> (user \<Rightarrow> bool) \<Rightarrow> (allocation \<Rightarrow> string option) \<Rightarrow> state \<Rightarrow> formset_action
   \<Rightarrow> allocation_user_form list
   \<Rightarrow> py_exception + validation_error + allocation_user_form list" where
  "BaseAllocationUserFormSet_clean eula_enable is_pi get_eula st action forms =
     (if filter (\<lambda>f. form_errors f \<noteq> []) forms \<noteq> [] then Inr (Inr forms)
      else clean_forms eula_enable is_pi get_eula st action forms)"

text \<open>
  Django's \<open>BaseFormSet.is_valid\<close>: \<open>full_clean\<close> keeps a \<open>ValidationError\<close> of \<open>clean\<close>
  as a non-form error, and the formset is valid when no form has an error and there is
  no non-form error.
\<close>

definition BaseAllocationUserFormSet_is_valid ::
  "bool \<Rightarrow> (user \<Rightarrow> bool) \<Rightarrow> (allocation \<Rightarrow> string option) \<Rightarrow> state \<Rightarrow> formset_action
   \<Rightarrow> allocation_user_form list \<Rightarrow> py_exception + bool" where
  "BaseAllocationUserFormSet_is_valid eula_enable is_pi get_eula st action forms =
     (case BaseAllocationUserFormSet_clean eula_enable is_pi get_eula st action forms of
        Inl e \<Rightarrow> Inl e
      | Inr (Inl v) \<Rightarrow> Inr False
      | Inr (Inr fs) \<Rightarrow> Inr (filter (\<lambda>f. form_errors f \<noteq> []) forms = []))"


section \<open>\<open>views.AllocationDetailView\<close>\<close>

text \<open>
  What the request posts for the fields of \<open>AllocationUpdateForm\<close>. A date field is
  absent from the data, blank, a date, or text that is no date. The posted status is
  the row of the status table whose key was posted, \<open>None\<close> when there is none.
\<close>

datatype date_input = DateAbsent | DateBlank | DateValue date | DateInvalid

record allocation_update_data =
  post_status :: "string option"
  post_start_date :: date_input
  post_end_date :: date_input
  post_description :: string
  post_is_locked :: bool
  post_is_changeable :: bool

text \<open>\<open>cleaned_data.get(field)\<close> of a \<open>DateField(required=False)\<close>.\<close>

definition cleaned_date :: "date_input \<Rightarrow> date option" where
  "cleaned_date i = (case i of DateValue d \<Rightarrow> Some d | _ \<Rightarrow> None)"

text \<open>
  \<open>form.save()\<close> of the model form on its instance: every field of the form is set from
  \<open>cleaned_data\<close>; for a user who is no superuser \<open>is_locked\<close> and \<open>is_changeable\<close> are
  disabled and keep the instance's values.
\<close>

definition AllocationUpdateForm_save :: "user \<Rightarrow> allocation \<Rightarrow> allocation_update_data \<Rightarrow> allocation" where
  "AllocationUpdateForm_save request_user obj d =
     obj\<lparr>alloc_status := (case post_status d of Some s \<Rightarrow> s | None \<Rightarrow> alloc_status obj),
         start_date := cleaned_date (post_start_date d),
         end_date := cleaned_date (post_end_date d),
         description := post_description d,
         is_locked := (if is_superuser request_user then post_is_locked d else is_locked obj),
         is_changeable :=
           (if is_superuser request_user then post_is_changeable d else is_changeable obj)\<rparr>"

text \<open>
  \<open>form.is_valid()\<close>: the fields have no error, \<open>clean\<close> raises nothing, and the
  validation of the instance that the model form runs after them passes.
  \<open>instance.full_clean()\<close> belongs to the model \<open>Allocation\<close>, in a module that is not
  modelled here, and is the parameter \<open>full_clean\<close>.
\<close>

definition AllocationUpdateForm_is_valid ::
  "(allocation \<Rightarrow> bool) \<Rightarrow> user \<Rightarrow> allocation \<Rightarrow> allocation_update_data \<Rightarrow> bool" where
  "AllocationUpdateForm_is_valid full_clean request_user obj d =
     (post_status d \<noteq> None
      \<and> post_start_date d \<noteq> DateInvalid
      \<and> post_end_date d \<noteq> DateInvalid
      \<and> AllocationUpdateForm_clean (cleaned_date (post_start_date d))
           (cleaned_date (post_end_date d)) = None
      \<and> full_clean (AllocationUpdateForm_save request_user obj d))"

definition get_success_url :: "string option \<Rightarrow> nat \<Rightarrow> location" where
  "get_success_url action pk =
     (if action = Some ''auto-approve'' then reverse ''allocation-request-list'' None
      else reverse ''allocation-detail'' (Some pk))"

text \<open>\<open>form_valid\<close> and \<open>form_invalid\<close> of Django's \<open>UpdateView\<close>.\<close>

definition form_valid ::
  "user \<Rightarrow> string option \<Rightarrow> allocation \<Rightarrow> allocation_update_data \<Rightarrow> state \<Rightarrow> http_response \<times> state" where
  "form_valid request_user action obj d st =
     (HttpResponseRedirect (get_success_url action (alloc_pk obj)),
      save_allocation (AllocationUpdateForm_save request_user obj d) st)"

definition form_invalid :: "state \<Rightarrow> http_response \<times> state" where
  "form_invalid st = (TemplateResponse ''allocation/allocation_detail.html'', st)"

text \<open>\<open>super().post(request)\<close>: Django's \<open>UpdateView.post\<close>, on the data as posted.\<close>

definition UpdateView_post ::
  "(allocation \<Rightarrow> bool) \<Rightarrow> user \<Rightarrow> string option \<Rightarrow> allocation \<Rightarrow> allocation_update_data
   \<Rightarrow> state \<Rightarrow> view_result" where
  "UpdateView_post full_clean request_user action obj d st =
     (if AllocationUpdateForm_is_valid full_clean request_user obj d
      then (case form_valid request_user action obj d st of (r, st') \<Rightarrow> (Inr r, st'))
      else (case form_invalid st of (r, st') \<Rightarrow> (Inr r, st')))"

text \<open>
  What \<open>post\<close> has decided when it builds the form: the data for the form, the signal
  for the allocation, the statuses excluded from \<open>allocation_user_qs\<close> and the signal for
  its users, and the subject and template of the mail.
\<close>

record post_plan =
  plan_data :: allocation_update_data
  plan_allocation_signal :: "(nat \<Rightarrow> signal) option"
  plan_allocation_user_qs :: "string list option"
  plan_allocation_user_signal :: "(nat \<Rightarrow> signal) option"
  plan_email_kwargs :: "(string \<times> string) option"

definition plan_nothing :: "allocation_update_data \<Rightarrow> post_plan" where
  "plan_nothing d =
     \<lparr>plan_data = d, plan_allocation_signal = None, plan_allocation_user_qs = None,
      plan_allocation_user_signal = None, plan_email_kwargs = None\<rparr>"

text \<open>
  \<open>not dirty_form_data["end_date"]\<close>: subscripting the posted data raises for a key
  that is absent; the empty string is falsy.
\<close>

definition end_date_is_falsy :: "date_input \<Rightarrow> py_exception + bool" where
  "end_date_is_falsy i =
     (case i of DateAbsent \<Rightarrow> Inl KeyError | DateBlank \<Rightarrow> Inr True | _ \<Rightarrow> Inr False)"

text \<open>
  The branch \<open>new_status == "Active"\<close>; \<open>default_length\<close> is
  \<open>ALLOCATION_DEFAULT_ALLOCATION_LENGTH\<close>. The text of the message for \<open>auto-approve\<close>
  is kept as its format string.
\<close>

definition plan_active ::
  "int \<Rightarrow> date \<Rightarrow> string option \<Rightarrow> allocation \<Rightarrow> allocation_update_data \<Rightarrow> state
   \<Rightarrow> py_exception + (post_plan \<times> state)" where
  "plan_active default_length now action obj dirty st =
     (let d1 = (if start_date obj = None then dirty\<lparr>post_start_date := DateValue now\<rparr>
                else dirty);
          new_end = (if action \<in> set [Some ''approve'', Some ''auto-approve''] then Inr True
                     else end_date_is_falsy (post_end_date d1))
      in case new_end of
           Inl e \<Rightarrow> Inl e
         | Inr b \<Rightarrow>
             (let d2 = (if b then d1\<lparr>post_end_date := DateValue (now + default_length)\<rparr>
                        else d1);
                  plan = \<lparr>plan_data = d2,
                          plan_allocation_signal = Some allocation_activate,
                          plan_allocation_user_qs =
                            Some [''Removed'', ''Error'', ''DeclinedEULA'', ''PendingEULA''],
                          plan_allocation_user_signal = Some allocation_activate_user,
                          plan_email_kwargs =
                            Some (''Allocation Activated'', ''email/allocation_activated.txt'')\<rparr>;
                  msg = (if action \<noteq> Some ''auto-approve'' then ''Allocation Activated!''
                         else ''Allocation to {} has been ACTIVATED for {} {} ({})'')
              in Inr (plan, add_message SUCCESS msg st)))"

text \<open>The branch \<open>new_status in ["Denied", "New", "Revoked"]\<close>.\<close>

definition plan_inactive ::
  "string \<Rightarrow> allocation_update_data \<Rightarrow> state \<Rightarrow> post_plan \<times> state" where
  "plan_inactive new_status dirty st =
     (let d1 = dirty\<lparr>post_start_date := DateBlank, post_end_date := DateBlank\<rparr>
      in if new_status \<in> set [''Denied'', ''Revoked'']
         then (\<lparr>plan_data = d1,
                plan_allocation_signal = Some allocation_disable,
                plan_allocation_user_qs = Some [''Removed'', ''Error''],
                plan_allocation_user_signal = Some allocation_remove_user,
                plan_email_kwargs =
                  (if new_status = ''Denied''
                   then Some (''Allocation Denied'', ''email/allocation_denied.txt'')
                   else Some (''Allocation Revoked'', ''email/allocation_revoked.txt''))\<rparr>,
               add_message SUCCESS
                 (if new_status = ''Denied'' then ''Allocation Denied!''
                  else ''Allocation Revoked!'') st)
         else (plan_nothing d1, add_message SUCCESS ''Allocation updated!'' st))"

text \<open>The loop that sends \<open>allocation_user_signal\<close> for every row of \<open>allocation_user_qs\<close>.\<close>

fun send_user_signals :: "(nat \<Rightarrow> signal) \<Rightarrow> allocation_user list \<Rightarrow> state \<Rightarrow> state" where
  "send_user_signals sig [] st = st"
| "send_user_signals sig (au # rest) st =
     send_user_signals sig rest (send_signal (sig (au_pk au)) st)"

text \<open>The part of \<open>post\<close> from \<open>form = form_class(**form_kwargs)\<close> on.\<close>

definition post_save_actions :: "allocation \<Rightarrow> post_plan \<Rightarrow> state \<Rightarrow> state" where
  "post_save_actions obj plan st =
     (let st1 = (case plan_allocation_signal plan of
                   Some sig \<Rightarrow> send_signal (sig (alloc_pk obj)) st
                 | None \<Rightarrow> st);
          st2 = (case (plan_allocation_user_signal plan, plan_allocation_user_qs plan) of
                   (Some sig, Some excluded) \<Rightarrow>
                     send_user_signals sig
                       (filter (\<lambda>au. au_status au \<notin> set excluded) (allocationuser_set st1 obj))
                       st1
                 | _ \<Rightarrow> st1)
      in case plan_email_kwargs plan of
           Some (subject, template_name) \<Rightarrow>
             send_mail (allocation_customer_email (alloc_pk obj) subject template_name) st2
         | None \<Rightarrow> st2)"

definition process_form ::
  "(allocation \<Rightarrow> bool) \<Rightarrow> user \<Rightarrow> string option \<Rightarrow> allocation \<Rightarrow> post_plan \<Rightarrow> state
   \<Rightarrow> view_result" where
  "process_form full_clean request_user action obj plan st =
     (if AllocationUpdateForm_is_valid full_clean request_user obj (plan_data plan)
      then (case form_valid request_user action obj (plan_data plan) st of
              (r, st1) \<Rightarrow>
                (Inr r,
                 post_save_actions (AllocationUpdateForm_save request_user obj (plan_data plan))
                   plan st1))
      else (case form_invalid st of (r, st') \<Rightarrow> (Inr r, st')))"

text \<open>
  \<open>post\<close>, with the model's validation, \<open>ALLOCATION_DEFAULT_ALLOCATION_LENGTH\<close>, the
  day of \<open>datetime.datetime.now()\<close>, \<open>request.user\<close>, \<open>kwargs["pk"]\<close>,
  \<open>request.POST.get("action")\<close> and the posted form data.

  The body of \<open>post\<close> assigns \<open>redirect = self.form_valid(form)\<close> and
  \<open>redirect = self.form_invalid(form)\<close> further down, which makes \<open>redirect\<close> a local
  name of the whole function. The branch for a user who is no superuser evaluates
  \<open>redirect(self.object)\<close> before any assignment to it: after the message is added,
  reading the name raises \<open>UnboundLocalError\<close>.
\<close>

definition AllocationDetailView_post ::
  "(allocation \<Rightarrow> bool) \<Rightarrow> int \<Rightarrow> date \<Rightarrow> user \<Rightarrow> nat \<Rightarrow> string option
   \<Rightarrow> allocation_update_data \<Rightarrow> state \<Rightarrow> view_result" where
  "AllocationDetailView_post full_clean default_length now request_user pk action posted st =
     (case get_by_pk alloc_pk (allocations st) pk of
        None \<Rightarrow> (Inr Http404, st)
      | Some obj \<Rightarrow>
          if \<not> is_superuser request_user
          then (Inl UnboundLocalError,
                add_message SUCCESS ''You do not have permission to update the allocation'' st)
          else if action \<notin> set [Some ''update'', Some ''approve'', Some ''auto-approve'',
                                  Some ''deny'']
          then (Inr (HttpResponseBadRequest ''Invalid request''), st)
          else
            (let dirty_form_data =
                   (if action \<in> set [Some ''approve'', Some ''auto-approve'']
                    then posted\<lparr>post_status := Some ''Active''\<rparr>
                    else if action = Some ''deny''
                    then posted\<lparr>post_status := Some ''Denied''\<rparr>
                    else posted);
                 old_status = alloc_status obj
             in case post_status dirty_form_data of
                  None \<Rightarrow> (Inl DoesNotExist, st)
                | Some new_status \<Rightarrow>
                    if \<not> (old_status \<noteq> new_status)
                    then UpdateView_post full_clean request_user action obj posted st
                    else if new_status = ''Active''
                    then (case plan_active default_length now action obj dirty_form_data st of
                            Inl e \<Rightarrow> (Inl e, st)
                          | Inr (plan, st1) \<Rightarrow> process_form full_clean request_user action obj plan
                               st1)
                    else if new_status \<in> set [''Denied'', ''New'', ''Revoked'']
                    then (case plan_inactive new_status dirty_form_data st of
                            (plan, st1) \<Rightarrow> process_form full_clean request_user action obj plan
                               st1)
                    else process_form full_clean request_user action obj
                           (plan_nothing dirty_form_data) st))"

text \<open>
  \<open>test_func\<close>; \<open>request.user.has_perm("allocation.can_view_all_allocations")\<close> of
  Django's permissions and \<open>allocation_obj.has_perm(user, AllocationPermission.USER)\<close> of
  the model are the parameters \<open>can_view_all_allocations\<close> and \<open>has_user_perm\<close>.
\<close>

definition AllocationDetailView_test_func ::
  "(user \<Rightarrow> bool) \<Rightarrow> (state \<Rightarrow> allocation \<Rightarrow> user \<Rightarrow> bool) \<Rightarrow> user \<Rightarrow> nat \<Rightarrow> state
   \<Rightarrow> http_response + bool" where
  "AllocationDetailView_test_func can_view_all_allocations has_user_perm request_user pk st =
     (case get_by_pk alloc_pk (allocations st) pk of
        None \<Rightarrow> Inl Http404
      | Some allocation_obj \<Rightarrow>
          if can_view_all_allocations request_user then Inr True
          else Inr (has_user_perm st allocation_obj request_user))"

text \<open>
  \<open>dispatch\<close> for a request of the method \<open>POST\<close>, from the user of the request
  (\<open>None\<close> for the anonymous user): Django's \<open>LoginRequiredMixin\<close> sends an anonymous
  user to the login page, \<open>UserPassesTestMixin\<close> answers 403 to a user who fails
  \<open>test_func\<close>, and \<open>View.dispatch\<close> calls \<open>post\<close>.
\<close>

definition AllocationDetailView_dispatch ::
  "(user \<Rightarrow> bool) \<Rightarrow> (state \<Rightarrow> allocation \<Rightarrow> user \<Rightarrow> bool) \<Rightarrow> (allocation \<Rightarrow> bool) \<Rightarrow> int
   \<Rightarrow> date \<Rightarrow> user option \<Rightarrow> nat \<Rightarrow> string option \<Rightarrow> allocation_update_data \<Rightarrow> state
   \<Rightarrow> view_result" where
  "AllocationDetailView_dispatch can_view_all_allocations has_user_perm full_clean default_length
     now user_of_request pk action posted st =
     (case user_of_request of
        None \<Rightarrow> (Inr (HttpResponseRedirect login_url), st)
      | Some request_user \<Rightarrow>
          (case AllocationDetailView_test_func can_view_all_allocations has_user_perm
                  request_user pk st of
             Inl r \<Rightarrow> (Inr r, st)
           | Inr False \<Rightarrow> (Inr PermissionDenied, st)
           | Inr True \<Rightarrow>
               AllocationDetailView_post full_clean default_length now request_user pk action
                 posted st))"


section \<open>\<open>forms.AllocationForm\<close>\<close>

text \<open>
  The settings that \<open>forms.py\<close> imports, and the resource rows as \<open>clean\<close> reads them:
  \<open>res_allocation_limit\<close> is \<open>resource_obj.get_attribute("allocation_limit", typed=True)\<close>,
  an attribute of integer type or \<open>None\<close> (the method belongs to the models, which are
  not modelled here).
\<close>

record settings =
  ALLOCATION_ACCOUNT_ENABLED :: bool
  ALLOCATION_ACCOUNT_MAPPING :: "(string \<times> string) list"
  INVOICE_ENABLED :: bool
  INVOICE_DEFAULT_STATUS :: string

record resource =
  res_pk :: nat
  res_name :: string
  requires_payment :: bool
  res_allocation_limit :: "int option"

text \<open>
  The entries of \<open>form_data\<close> that \<open>clean\<close> reads, each \<open>None\<close> when \<open>get\<close> finds nothing.
\<close>

record allocation_form_data =
  fd_project :: "project option"
  fd_resource :: "resource option"
  fd_allocation_account :: "string option"

definition truthy_int :: "int option \<Rightarrow> bool" where
  "truthy_int v = (case v of None \<Rightarrow> False | Some n \<Rightarrow> n \<noteq> 0)"

definition user_has_no_account_name :: validation_error where
  "user_has_no_account_name =
     ValidationError (''You need to create an account name. Create it by clicking the link under the ''
       @ [CHR 0x22] @ ''Allocation account'' @ [CHR 0x22] @ '' field.'')"

definition reached_allocation_limit :: validation_error where
  "reached_allocation_limit =
     ValidationError ''Your project is at the allocation limit allowed for this resource.''"

text \<open>
  The first check of \<open>clean\<close>; \<open>attribute_types\<close> are the names of the rows of
  \<open>AllocationAttributeType\<close>.
\<close>

definition needs_account_name :: "settings \<Rightarrow> string list \<Rightarrow> resource \<Rightarrow> string option \<Rightarrow> bool" where
  "needs_account_name cfg attribute_types resource_obj allocation_account =
     (ALLOCATION_ACCOUNT_ENABLED cfg
      \<and> (case map_of (ALLOCATION_ACCOUNT_MAPPING cfg) (res_name resource_obj) of
            None \<Rightarrow> False
          | Some type_name \<Rightarrow> type_name \<in> set attribute_types)
      \<and> \<not> truthy_str allocation_account)"

text \<open>
  \<open>project_obj.allocation_set.filter(resources=resource_obj, status__name__in=[...]).count()\<close>
\<close>

definition allocation_count :: "state \<Rightarrow> project \<Rightarrow> resource \<Rightarrow> nat" where
  "allocation_count st project_obj resource_obj =
     length (filter (\<lambda>a. res_pk resource_obj \<in> set (alloc_resources a)
                         \<and> alloc_status a \<in> set [''Active'', ''New'', ''Renewal Requested'',
                                                  ''Paid'', ''Payment Pending'',
                                                  ''Payment Requested''])
               (allocation_set st project_obj))"

text \<open>
  \<open>clean\<close>: an exception, the \<open>ValidationError\<close> raised, or the name of the status that
  is put into \<open>form_data["status"]\<close>.
\<close>

definition AllocationForm_clean ::
  "settings \<Rightarrow> string list \<Rightarrow> state \<Rightarrow> allocation_form_data
   \<Rightarrow> py_exception + validation_error + string" where
  "AllocationForm_clean cfg attribute_types st form_data =
     (case fd_resource form_data of
        None \<Rightarrow> Inl AttributeError
      | Some resource_obj \<Rightarrow>
          if needs_account_name cfg attribute_types resource_obj
               (fd_allocation_account form_data)
          then Inr (Inl user_has_no_account_name)
          else
            (let allocation_limit = res_allocation_limit resource_obj;
                 allocation_status_name =
                   (if INVOICE_ENABLED cfg \<and> requires_payment resource_obj
                    then INVOICE_DEFAULT_STATUS cfg else ''New'')
             in if truthy_int allocation_limit
                then (case fd_project form_data of
                        None \<Rightarrow> Inl AttributeError
                      | Some project_obj \<Rightarrow>
                          if int (allocation_count st project_obj resource_obj)
                               \<ge> the allocation_limit
                          then Inr (Inl reached_allocation_limit)
                          else Inr (Inr allocation_status_name))
                else Inr (Inr allocation_status_name)))"


section \<open>\<open>views.AllocationRenewView\<close>\<close>

text \<open>
  The properties and methods of the models that the view calls are parameters, the
  models not being modelled here: \<open>project.needs_review\<close>,
  \<open>allocation.expires_in\<close>, \<open>allocation.has_perm(user, AllocationPermission.MANAGER)\<close>,
  \<open>allocation.remove_user(user)\<close> and \<open>project.remove_user(user)\<close>.
\<close>

record model_api =
  needs_review :: "project \<Rightarrow> bool"
  expires_in :: "allocation \<Rightarrow> int"
  has_manager_perm :: "state \<Rightarrow> allocation \<Rightarrow> user \<Rightarrow> bool"
  Allocation_remove_user :: "allocation \<Rightarrow> nat \<Rightarrow> state \<Rightarrow> state"
  Project_remove_user :: "project \<Rightarrow> nat \<Rightarrow> state \<Rightarrow> state"

text \<open>
  The request: its user (\<open>None\<close> for the anonymous user), its method, and for each form
  of the posted formset the key of its row and the posted \<open>user_status\<close>.
\<close>

datatype http_method = GET | POST

record renew_request =
  req_user :: "user option"
  req_method :: http_method
  req_forms :: "(nat \<times> string) list"

definition ALLOCATION_REVIEW_USER_CHOICES :: "string list" where
  "ALLOCATION_REVIEW_USER_CHOICES =
     [''keep_in_allocation_and_project'', ''keep_in_project_only'', ''remove_from_project'']"

text \<open>
  \<open>get_formset_queryset\<close> (the order by user name is not kept: a bound form finds its
  row by the posted key).
\<close>

definition AllocationRenewView_get_formset_queryset ::
  "state \<Rightarrow> allocation \<Rightarrow> project \<Rightarrow> user \<Rightarrow> allocation_user list" where
  "AllocationRenewView_get_formset_queryset st a proj request_user =
     filter (\<lambda>au. au_user au \<notin> set [proj_pi proj, user_pk request_user])
       (filter (\<lambda>au. au_status au \<notin> set [''Removed'']) (allocationuser_set st a))"

text \<open>
  A form of the review formset is valid when its key is the key of a row of the
  queryset and its \<open>user_status\<close> is one of the choices; the other fields are disabled
  and come from the row.
\<close>

definition review_form_is_valid :: "allocation_user list \<Rightarrow> nat \<times> string \<Rightarrow> bool" where
  "review_form_is_valid qs f =
     (fst f \<in> set (map au_pk qs) \<and> snd f \<in> set ALLOCATION_REVIEW_USER_CHOICES)"

definition review_formset_is_valid :: "allocation_user list \<Rightarrow> (nat \<times> string) list \<Rightarrow> bool" where
  "review_formset_is_valid qs forms = (filter (\<lambda>f. \<not> review_form_is_valid qs f) forms = [])"

text \<open>\<open>AllocationReviewUserForm.save\<close> for the row of the form.\<close>

definition AllocationReviewUserForm_save ::
  "model_api \<Rightarrow> allocation \<Rightarrow> project \<Rightarrow> nat \<Rightarrow> string \<Rightarrow> state \<Rightarrow> state" where
  "AllocationReviewUserForm_save api a proj user user_status st =
     (if user_status = ''keep_in_project_only'' then Allocation_remove_user api a user st
      else if user_status = ''remove_from_project'' then Project_remove_user api proj user st
      else st)"

text \<open>\<open>formset.save()\<close>: the forms in their order.\<close>

fun review_formset_save ::
  "model_api \<Rightarrow> allocation \<Rightarrow> project \<Rightarrow> allocation_user list \<Rightarrow> (nat \<times> string) list
   \<Rightarrow> state \<Rightarrow> state" where
  "review_formset_save api a proj qs [] st = st"
| "review_formset_save api a proj qs (f # rest) st =
     review_formset_save api a proj qs rest
       (case get_by_pk au_pk qs (fst f) of
          None \<Rightarrow> st
        | Some au \<Rightarrow> AllocationReviewUserForm_save api a proj (au_user au) (snd f) st)"

text \<open>\<open>formset_valid\<close> of the view, on the allocation that \<open>post\<close> fetched.\<close>

definition AllocationRenewView_formset_valid ::
  "model_api \<Rightarrow> allocation \<Rightarrow> project \<Rightarrow> allocation_user list \<Rightarrow> (nat \<times> string) list
   \<Rightarrow> state \<Rightarrow> view_result" where
  "AllocationRenewView_formset_valid api a proj qs forms st =
     (let st1 = review_formset_save api a proj qs forms st;
          redirect = HttpResponseRedirect (absolute_url_of_allocation (alloc_pk a));
          st2 = save_allocation (a\<lparr>alloc_status := ''Renewal Requested''\<rparr>) st1;
          st3 = send_mail (allocation_admin_email (alloc_pk a) ''Allocation Renewed''
                             ''email/allocation_renewed.txt'') st2;
          st4 = add_message SUCCESS ''Allocation renewed successfully'' st3
      in (Inr redirect, st4))"

text \<open>
  \<open>formset_invalid\<close> of \<open>FormSetMixin\<close>: a message for every form that has errors (kept
  as the \<open>user_status\<close> the form posted), and the page again.
\<close>

fun formset_error_messages :: "allocation_user list \<Rightarrow> (nat \<times> string) list \<Rightarrow> state \<Rightarrow> state" where
  "formset_error_messages qs [] st = st"
| "formset_error_messages qs (f # rest) st =
     formset_error_messages qs rest
       (if review_form_is_valid qs f then st else add_message ERROR (snd f) st)"

definition AllocationRenewView_formset_invalid ::
  "allocation_user list \<Rightarrow> (nat \<times> string) list \<Rightarrow> state \<Rightarrow> view_result" where
  "AllocationRenewView_formset_invalid qs forms st =
     (Inr (TemplateResponse ''allocation/allocation_renew.html''),
      formset_error_messages qs forms st)"

text \<open>
  \<open>post\<close>: \<open>AllocationInContextView.post\<close> fetches the allocation, and
  \<open>ProcessFormSetView.post\<close> builds the formset and validates it.
\<close>

definition AllocationRenewView_post ::
  "model_api \<Rightarrow> renew_request \<Rightarrow> user \<Rightarrow> nat \<Rightarrow> state \<Rightarrow> view_result" where
  "AllocationRenewView_post api req request_user pk st =
     (case get_by_pk alloc_pk (allocations st) pk of
        None \<Rightarrow> (Inr Http404, st)
      | Some a \<Rightarrow>
          (case get_by_pk proj_pk (projects st) (alloc_project a) of
             None \<Rightarrow> (Inl DoesNotExist, st)
           | Some proj \<Rightarrow>
               (let qs = AllocationRenewView_get_formset_queryset st a proj request_user
                in if review_formset_is_valid qs (req_forms req)
                   then AllocationRenewView_formset_valid api a proj qs (req_forms req) st
                   else AllocationRenewView_formset_invalid qs (req_forms req) st)))"

text \<open>\<open>test_func\<close>: the answer and the state, with the message when the answer is no.\<close>

definition AllocationRenewView_test_func ::
  "model_api \<Rightarrow> user \<Rightarrow> nat \<Rightarrow> state \<Rightarrow> (http_response + bool) \<times> state" where
  "AllocationRenewView_test_func api request_user pk st =
     (case get_by_pk alloc_pk (allocations st) pk of
        None \<Rightarrow> (Inl Http404, st)
      | Some allocation_obj \<Rightarrow>
          if has_manager_perm api st allocation_obj request_user then (Inr True, st)
          else (Inr False,
                add_message ERROR ''You do not have permission to renew allocation.'' st))"

text \<open>
  \<open>super().dispatch\<close>: Django's \<open>LoginRequiredMixin\<close> sends an anonymous user to the
  login page, \<open>UserPassesTestMixin\<close> answers 403 to a user who fails \<open>test_func\<close>, and
  \<open>View.dispatch\<close> calls the handler of the method.
\<close>

definition AllocationRenewView_super_dispatch ::
  "model_api \<Rightarrow> renew_request \<Rightarrow> nat \<Rightarrow> state \<Rightarrow> view_result" where
  "AllocationRenewView_super_dispatch api req pk st =
     (case req_user req of
        None \<Rightarrow> (Inr (HttpResponseRedirect login_url), st)
      | Some request_user \<Rightarrow>
          (case AllocationRenewView_test_func api request_user pk st of
             (Inl r, st1) \<Rightarrow> (Inr r, st1)
           | (Inr False, st1) \<Rightarrow> (Inr PermissionDenied, st1)
           | (Inr True, st1) \<Rightarrow>
               (case req_method req of
                  GET \<Rightarrow> (Inr (TemplateResponse ''allocation/allocation_renew.html''), st1)
                | POST \<Rightarrow> AllocationRenewView_post api req request_user pk st1)))"

text \<open>\<open>dispatch\<close>; \<open>renewal_enabled\<close> is \<open>ALLOCATION_ENABLE_ALLOCATION_RENEWAL\<close>.\<close>

definition AllocationRenewView_dispatch ::
  "bool \<Rightarrow> model_api \<Rightarrow> renew_request \<Rightarrow> nat \<Rightarrow> state \<Rightarrow> view_result" where
  "AllocationRenewView_dispatch renewal_enabled api req pk st =
     (case get_by_pk alloc_pk (allocations st) pk of
        None \<Rightarrow> (Inr Http404, st)
      | Some allocation_obj \<Rightarrow>
          if \<not> renewal_enabled
          then (Inr (HttpResponseRedirect (absolute_url_of_allocation (alloc_pk allocation_obj))),
                add_message ERROR
                  ''Allocation renewal is disabled. Request a new allocation to this resource if you want to continue using it after the active until date.''
                  st)
          else if alloc_status allocation_obj \<notin> set [''Active'']
          then (Inr (HttpResponseRedirect (absolute_url_of_allocation (alloc_pk allocation_obj))),
                add_message ERROR
                  (''You cannot renew a allocation with status '' @ alloc_status allocation_obj
                   @ ''.'')
                  st)
          else (case get_by_pk proj_pk (projects st) (alloc_project allocation_obj) of
                  None \<Rightarrow> (Inl DoesNotExist, st)
                | Some proj \<Rightarrow>
                    if needs_review api proj
                    then (Inr (HttpResponseRedirect (absolute_url_of_project (proj_pk proj))),
                          add_message ERROR
                            ''You cannot renew your allocation because you have to review your project first.''
                            st)
                    else if expires_in api allocation_obj > 60
                    then (Inr (HttpResponseRedirect
                                 (absolute_url_of_allocation (alloc_pk allocation_obj))),
                          add_message ERROR ''It is too soon to review your allocation.'' st)
                    else AllocationRenewView_super_dispatch api req pk st))"


section \<open>\<open>forms.AllocationAttributeChangeRequestForm\<close> and its formset\<close>

text \<open>
  \<open>cleaned_data\<close> of a form is a dictionary from field names to values. The fields of the
  form are \<open>allocation_change_request\<close>, \<open>allocation_attribute\<close> and \<open>new_value\<close>, and the
  model formset adds the key field \<open>id\<close>.
\<close>

datatype cd_value =
    CdRow allocation_attribute_change_request
  | CdChangeRequest nat
  | CdAttribute allocation_attribute
  | CdAllocation allocation
  | CdText string

record attribute_change_form =
  acf_errors :: "string list"
  acf_instance :: "allocation_attribute_change_request option"
  acf_cleaned_data :: "(string \<times> cd_value) list"

definition save_allocation_attribute :: "allocation_attribute \<Rightarrow> state \<Rightarrow> state" where
  "save_allocation_attribute obj st =
     st\<lparr>allocation_attributes := save_row attr_pk obj (allocation_attributes st)\<rparr>"

definition save_change_request :: "allocation_change_request \<Rightarrow> state \<Rightarrow> state" where
  "save_change_request obj st =
     st\<lparr>allocation_change_requests := save_row acr_pk obj (allocation_change_requests st)\<rparr>"

definition save_attribute_change_request ::
  "allocation_attribute_change_request \<Rightarrow> state \<Rightarrow> state" where
  "save_attribute_change_request obj st =
     st\<lparr>allocation_attribute_change_requests :=
          save_row aacr_pk obj (allocation_attribute_change_requests st)\<rparr>"

text \<open>
  The cleaning of the fields of one form. The form posts the key of its row, the key of
  the allocation attribute and the new value; \<open>allocation_change_request\<close> is disabled
  and comes from the row. (The declaration of \<open>new_value\<close> is with the models; the
  form is taken to accept the empty string, which \<open>clean\<close> tests for.)
\<close>

definition attribute_change_fields ::
  "state \<Rightarrow> allocation_attribute_change_request list \<Rightarrow> nat \<times> nat \<times> string
   \<Rightarrow> attribute_change_form" where
  "attribute_change_fields st qs posted =
     (case posted of (row_pk, attribute_pk, posted_value) \<Rightarrow>
        (let instance = get_by_pk aacr_pk qs row_pk;
             attribute = get_by_pk attr_pk (allocation_attributes st) attribute_pk
         in \<lparr>acf_errors =
               (case instance of None \<Rightarrow> [''id''] | Some r \<Rightarrow> [])
               @ (case attribute of None \<Rightarrow> [''allocation_attribute''] | Some a \<Rightarrow> []),
             acf_instance = instance,
             acf_cleaned_data =
               (case instance of
                  None \<Rightarrow> []
                | Some r \<Rightarrow> [(''id'', CdRow r),
                             (''allocation_change_request'',
                              CdChangeRequest (aacr_change_request r))])
               @ (case attribute of
                    None \<Rightarrow> []
                  | Some a \<Rightarrow> [(''allocation_attribute'', CdAttribute a)])
               @ [(''new_value'', CdText posted_value)]\<rparr>))"

text \<open>
  \<open>AllocationAttributeChangeRequestForm.clean\<close>, run after the fields whatever their
  errors. \<open>allocation_attribute.clean()\<close> is a method of the model and a parameter:
  it gives the \<open>ValidationError\<close> it raises, if any. A \<open>ValidationError\<close> of \<open>clean\<close>
  becomes the error \<open>__all__\<close> of the form.
\<close>

definition AllocationAttributeChangeRequestForm_clean ::
  "(allocation_attribute \<Rightarrow> validation_error option) \<Rightarrow> attribute_change_form
   \<Rightarrow> py_exception + attribute_change_form" where
  "AllocationAttributeChangeRequestForm_clean attribute_clean form =
     (let form_data = acf_cleaned_data form
      in case (map_of form_data ''allocation_attribute'', map_of form_data ''new_value'') of
           (Some (CdAttribute allocation_attribute), Some (CdText posted_value)) \<Rightarrow>
             if attr_value allocation_attribute = posted_value
             then Inr (form\<lparr>acf_errors := acf_errors form @ [''__all__'']\<rparr>)
             else if posted_value \<noteq> ''''
             then (let changed = allocation_attribute\<lparr>attr_value := posted_value\<rparr>;
                       form1 = form\<lparr>acf_cleaned_data :=
                                 AList.update ''allocation_attribute'' (CdAttribute changed)
                                   form_data\<rparr>
                   in case attribute_clean changed of
                        Some e \<Rightarrow> Inr (form1\<lparr>acf_errors := acf_errors form @ [''__all__'']\<rparr>)
                      | None \<Rightarrow> Inr form1)
             else Inr form
         | _ \<Rightarrow> Inl AttributeError)"

text \<open>The forms of the formset, cleaned in their order, up to the first exception.\<close>

fun clean_attribute_forms ::
  "(allocation_attribute \<Rightarrow> validation_error option) \<Rightarrow> state
   \<Rightarrow> allocation_attribute_change_request list \<Rightarrow> (nat \<times> nat \<times> string) list
   \<Rightarrow> py_exception + attribute_change_form list" where
  "clean_attribute_forms attribute_clean st qs [] = Inr []"
| "clean_attribute_forms attribute_clean st qs (posted # rest) =
     (case AllocationAttributeChangeRequestForm_clean attribute_clean
             (attribute_change_fields st qs posted) of
        Inl e \<Rightarrow> Inl e
      | Inr form \<Rightarrow>
          (case clean_attribute_forms attribute_clean st qs rest of
             Inl e \<Rightarrow> Inl e
           | Inr forms \<Rightarrow> Inr (form # forms)))"

text \<open>\<open>formset.save()\<close>: every form writes the posted attribute and value to its row.\<close>

fun attribute_formset_save :: "attribute_change_form list \<Rightarrow> state \<Rightarrow> state" where
  "attribute_formset_save [] st = st"
| "attribute_formset_save (form # rest) st =
     attribute_formset_save rest
       (case (acf_instance form, map_of (acf_cleaned_data form) ''allocation_attribute'',
              map_of (acf_cleaned_data form) ''new_value'') of
          (Some r, Some (CdAttribute a), Some (CdText v)) \<Rightarrow>
            save_attribute_change_request (r\<lparr>aacr_attribute := attr_pk a, new_value := v\<rparr>) st
        | _ \<Rightarrow> st)"


section \<open>\<open>views.AllocationChangeDetailView\<close>\<close>

text \<open>
  What the request posts: the action, the extension of the end date (\<open>None\<close> when empty),
  the notes, and the forms of the formset.
\<close>

record change_request_post =
  post_action :: "string option"
  post_end_date_extension :: "int option"
  post_notes :: string
  post_attribute_forms :: "(nat \<times> nat \<times> string) list"

text \<open>
  The field \<open>end_date_extension\<close> of \<open>AllocationChangeRequestForm\<close>: a disabled field keeps
  the value of the row, an empty one is 0, and a posted one has to be one of the
  choices, 0 and the days of \<open>ALLOCATION_CHANGE_REQUEST_EXTENSION_DAYS\<close>. \<open>None\<close>: the
  field has an error.
\<close>

definition cleaned_end_date_extension ::
  "int list \<Rightarrow> bool \<Rightarrow> allocation_change_request \<Rightarrow> int option \<Rightarrow> int option" where
  "cleaned_end_date_extension extension_days disabled obj posted =
     (if disabled then Some (end_date_extension obj)
      else (case posted of
              None \<Rightarrow> Some 0
            | Some n \<Rightarrow> if n \<in> set (0 # extension_days) then Some n else None))"

text \<open>\<open>form.save()\<close>: the fields that are not disabled are written to the row.\<close>

definition AllocationChangeRequestForm_save ::
  "allocation_change_request \<Rightarrow> int \<Rightarrow> string \<Rightarrow> allocation_change_request" where
  "AllocationChangeRequestForm_save obj extension posted_notes =
     obj\<lparr>end_date_extension := extension, acr_notes := posted_notes\<rparr>"

text \<open>
  The loop of the branch \<open>approve\<close> over the forms of the formset. \<open>allocation\<close> is
  \<open>form_data.get("allocation")\<close>; a value that is \<open>None\<close> has no attribute \<open>pk\<close>.
\<close>

fun apply_attribute_changes ::
  "attribute_change_form list \<Rightarrow> state \<Rightarrow> (py_exception + unit) \<times> state" where
  "apply_attribute_changes [] st = (Inr (), st)"
| "apply_attribute_changes (form # rest) st =
     (let form_data = acf_cleaned_data form;
          allocation = map_of form_data ''allocation'';
          allocation_attribute = map_of form_data ''allocation_attribute'';
          posted_value = map_of form_data ''new_value''
      in case (allocation_attribute, posted_value) of
           (Some (CdAttribute a), Some (CdText v)) \<Rightarrow>
             (let st1 = save_allocation_attribute (a\<lparr>attr_value := v\<rparr>) st
              in case allocation of
                   Some (CdAllocation al) \<Rightarrow>
                     apply_attribute_changes rest
                       (send_signal (allocation_attribute_changed (attr_pk a) (alloc_pk al)) st1)
                 | _ \<Rightarrow> (Inl AttributeError, st1))
         | _ \<Rightarrow> (Inl AttributeError, st))"

text \<open>The branch \<open>approve\<close>, on the change request as \<open>form.save()\<close> returned it.\<close>

definition approve_change_request ::
  "allocation_change_request \<Rightarrow> attribute_change_form list \<Rightarrow> http_response \<Rightarrow> state
   \<Rightarrow> view_result" where
  "approve_change_request obj forms redirect st =
     (let approved = obj\<lparr>acr_status := ''Approved''\<rparr>;
          extended =
            (if end_date_extension approved > 0
             then (case get_by_pk alloc_pk (allocations st) (acr_allocation approved) of
                     None \<Rightarrow> Inl DoesNotExist
                   | Some a \<Rightarrow>
                       (case end_date a of
                          None \<Rightarrow> Inl TypeError
                        | Some d \<Rightarrow>
                            Inr (save_allocation
                                   (a\<lparr>end_date := Some (d + end_date_extension approved)\<rparr>) st)))
             else Inr st)
      in case extended of
           Inl e \<Rightarrow> (Inl e, st)
         | Inr st1 \<Rightarrow>
             (case apply_attribute_changes forms (save_change_request approved st1) of
                (Inl e, st2) \<Rightarrow> (Inl e, st2)
              | (Inr u, st2) \<Rightarrow>
                  (Inr redirect,
                   send_mail (allocation_customer_email (acr_allocation approved)
                                ''Allocation Change Approved''
                                ''email/allocation_change_approved.txt'')
                     (send_signal
                        (allocation_change_approved (acr_allocation approved) (acr_pk approved))
                        (add_message SUCCESS
                           ''Allocation change request to {} has been APPROVED for {} {} ({})''
                           st2)))))"

text \<open>The branch \<open>deny\<close>.\<close>

definition deny_change_request ::
  "allocation_change_request \<Rightarrow> http_response \<Rightarrow> state \<Rightarrow> view_result" where
  "deny_change_request obj redirect st =
     (Inr redirect,
      send_mail (allocation_customer_email (acr_allocation obj) ''Allocation Change Denied''
                   ''email/allocation_change_denied.txt'')
        (add_message SUCCESS
           ''Allocation change request to {} has been DENIED for {} {} ({})''
           (save_change_request (obj\<lparr>acr_status := ''Denied''\<rparr>)
              (save_change_request obj st))))"

text \<open>
  \<open>formset_invalid\<close>: a message for every form that has errors, and the page again.
\<close>

fun attribute_formset_messages :: "attribute_change_form list \<Rightarrow> state \<Rightarrow> state" where
  "attribute_formset_messages [] st = st"
| "attribute_formset_messages (form # rest) st =
     attribute_formset_messages rest
       (if acf_errors form = [] then st
        else add_message ERROR (concat (acf_errors form)) st)"

definition AllocationChangeDetailView_formset_invalid ::
  "attribute_change_form list \<Rightarrow> state \<Rightarrow> view_result" where
  "AllocationChangeDetailView_formset_invalid forms st =
     (Inr (TemplateResponse ''allocation/allocation_change_detail.html''),
      attribute_formset_messages forms st)"

text \<open>
  \<open>post\<close>, with \<open>ALLOCATION_CHANGE_REQUEST_EXTENSION_DAYS\<close>, the model's
  \<open>allocation_attribute.clean()\<close>, \<open>request.user\<close>, \<open>kwargs["pk"]\<close> and the posted data.
  The formset is cleaned when \<open>formset.is_valid()\<close> is first called, after the branch
  \<open>deny\<close>.
\<close>

definition AllocationChangeDetailView_post ::
  "int list \<Rightarrow> (allocation_attribute \<Rightarrow> validation_error option) \<Rightarrow> user \<Rightarrow> nat
   \<Rightarrow> change_request_post \<Rightarrow> state \<Rightarrow> view_result" where
  "AllocationChangeDetailView_post extension_days attribute_clean request_user pk posted st =
     (case get_by_pk acr_pk (allocation_change_requests st) pk of
        None \<Rightarrow> (Inr Http404, st)
      | Some obj \<Rightarrow>
          (let redirect = HttpResponseRedirect (reverse ''allocation-change-detail''
                                                  (Some (acr_pk obj)));
               action = post_action posted
           in if \<not> is_superuser request_user
              then (Inr redirect,
                    add_message ERROR
                      ''You do not have permission to update an allocation change request'' st)
              else if action \<notin> set [Some ''update'', Some ''approve'', Some ''deny'']
              then (Inr (HttpResponseBadRequest ''Invalid request''), st)
              else
                (let disabled = (acr_status obj \<noteq> ''Pending''
                                 \<or> (\<not> is_staff request_user \<and> \<not> is_superuser request_user));
                     qs = filter (\<lambda>r. aacr_change_request r = acr_pk obj)
                            (allocation_attribute_change_requests st)
                 in case cleaned_end_date_extension extension_days disabled obj
                           (post_end_date_extension posted) of
                      None \<Rightarrow>
                        (Inr (TemplateResponse ''allocation/allocation_change_detail.html''),
                         add_message ERROR ''end_date_extension'' st)
                    | Some extension \<Rightarrow>
                        if action = Some ''deny''
                        then deny_change_request
                               (AllocationChangeRequestForm_save obj extension (post_notes posted))
                               redirect st
                        else
                          (case clean_attribute_forms attribute_clean st qs
                                  (post_attribute_forms posted) of
                             Inl e \<Rightarrow> (Inl e, st)
                           | Inr forms \<Rightarrow>
                               if filter (\<lambda>f. acf_errors f \<noteq> []) forms \<noteq> []
                               then AllocationChangeDetailView_formset_invalid forms st
                               else
                                 (let form_has_changed = (extension \<noteq> end_date_extension obj);
                                      change_requested = (form_has_changed \<or> True)
                                  in if \<not> change_requested
                                     then AllocationChangeDetailView_formset_invalid forms
                                            (add_message ERROR
                                               ''You must make a change to the allocation.'' st)
                                     else if action = Some ''update''
                                             \<and> acr_status obj \<noteq> ''Pending''
                                     then (Inr redirect,
                                           add_message SUCCESS
                                             ''Allocation change request updated!''
                                             (save_change_request
                                                (obj\<lparr>acr_notes := post_notes posted\<rparr>) st))
                                     else
                                       (let saved = AllocationChangeRequestForm_save obj
                                                      extension (post_notes posted);
                                            st1 = attribute_formset_save forms
                                                    (save_change_request saved st)
                                        in if action = Some ''update''
                                           then (Inr redirect,
                                                 add_message SUCCESS
                                                   ''Allocation change request updated!'' st1)
                                           else approve_change_request saved forms redirect
                                                  st1))))))"


section \<open>Example data\<close>

text \<open>
  A project with its PI (user 10), an active and a new allocation, two change requests
  of the first allocation, and the two users 10 and 11.
\<close>

definition example_pi :: user where
  "example_pi =
     \<lparr>user_pk = 10, username = ''pi'', email = ''pi@example.edu'',
      is_superuser = False, is_staff = False\<rparr>"

definition example_member :: user where
  "example_member =
     \<lparr>user_pk = 11, username = ''member'', email = ''member'',
      is_superuser = False, is_staff = False\<rparr>"

definition example_admin :: user where
  "example_admin =
     \<lparr>user_pk = 12, username = ''admin'', email = ''admin@example.edu'',
      is_superuser = True, is_staff = True\<rparr>"

definition example_project :: project where
  "example_project =
     \<lparr>proj_pk = 1, proj_pi = 10, proj_status = ''Active'', institution = ''None''\<rparr>"

definition example_active_allocation :: allocation where
  "example_active_allocation =
     \<lparr>alloc_pk = 1, alloc_project = 1, alloc_resources = [1], alloc_status = ''Active'',
      start_date = Some 100, end_date = Some 465, description = ''compute'',
      is_locked = False, is_changeable = True\<rparr>"

definition example_new_allocation :: allocation where
  "example_new_allocation =
     \<lparr>alloc_pk = 2, alloc_project = 1, alloc_resources = [2], alloc_status = ''New'',
      start_date = Some 100, end_date = None, description = ''storage'',
      is_locked = False, is_changeable = True\<rparr>"

definition example_state :: state where
  "example_state =
     \<lparr>projects = [example_project],
      project_users =
        [\<lparr>pu_pk = 1, pu_project = 1, pu_user = 10, pu_role = ''Manager'', pu_status = ''Active''\<rparr>,
         \<lparr>pu_pk = 2, pu_project = 1, pu_user = 11, pu_role = ''User'', pu_status = ''Active''\<rparr>],
      allocations = [example_active_allocation, example_new_allocation],
      allocation_users =
        [\<lparr>au_pk = 1, au_allocation = 1, au_user = 10, au_status = ''Active''\<rparr>,
         \<lparr>au_pk = 2, au_allocation = 1, au_user = 11, au_status = ''Active''\<rparr>,
         \<lparr>au_pk = 3, au_allocation = 2, au_user = 10, au_status = ''Active''\<rparr>,
         \<lparr>au_pk = 4, au_allocation = 2, au_user = 11, au_status = ''Removed''\<rparr>],
      allocation_attributes =
        [\<lparr>attr_pk = 1, attr_allocation = 1, attr_type = ''Core Usage (Hours)'', attr_value = ''10''\<rparr>,
         \<lparr>attr_pk = 2, attr_allocation = 1, attr_type = ''Storage Quota (GB)'', attr_value = ''20''\<rparr>],
      allocation_change_requests =
        [\<lparr>acr_pk = 1, acr_allocation = 1, acr_status = ''Pending'', end_date_extension = 30,
          justification = ''more'', acr_notes = []\<rparr>,
         \<lparr>acr_pk = 2, acr_allocation = 1, acr_status = ''Pending'', end_date_extension = 30,
          justification = ''longer'', acr_notes = []\<rparr>],
      allocation_attribute_change_requests =
        [\<lparr>aacr_pk = 1, aacr_change_request = 1, aacr_attribute = 1, new_value = ''15''\<rparr>,
         \<lparr>aacr_pk = 2, aacr_change_request = 1, aacr_attribute = 2, new_value = ''25''\<rparr>],
      sent_signals = [], messages = [], sent_mail = []\<rparr>"

text \<open>
  Three forms of the allocation-user formset, for the PI, for the member, and one whose
  own cleaning failed; a stand-in for the validation of the model, which wants both
  dates of an active allocation; and the data a superuser posts to approve the new
  allocation with the start date edited to day 200.
\<close>

definition example_pi_form :: allocation_user_form where
  "example_pi_form =
     \<lparr>form_errors = [], cd_selected = True, cd_user = example_pi,
      cd_allocation = example_active_allocation, cd_status = ''Removed''\<rparr>"

definition example_member_form :: allocation_user_form where
  "example_member_form =
     \<lparr>form_errors = [], cd_selected = True, cd_user = example_member,
      cd_allocation = example_active_allocation, cd_status = ''Removed''\<rparr>"

definition example_invalid_form :: allocation_user_form where
  "example_invalid_form =
     \<lparr>form_errors = [''user''], cd_selected = False, cd_user = example_member,
      cd_allocation = example_active_allocation, cd_status = ''Removed''\<rparr>"

definition example_full_clean :: "allocation \<Rightarrow> bool" where
  "example_full_clean a =
     (if alloc_status a = ''Active'' then start_date a \<noteq> None \<and> end_date a \<noteq> None else True)"

definition example_approval :: allocation_update_data where
  "example_approval =
     \<lparr>post_status = Some ''New'', post_start_date = DateValue 200, post_end_date = DateBlank,
      post_description = ''storage'', post_is_locked = False, post_is_changeable = True\<rparr>"


text \<open>
  A resource limited to one allocation per project, settings with and without the
  allocation accounts, the data of a request for that resource, and the same request for
  the resource with the limit 0.
\<close>

definition example_resource :: resource where
  "example_resource =
     \<lparr>res_pk = 1, res_name = ''cluster'', requires_payment = False,
      res_allocation_limit = Some 1\<rparr>"

definition example_settings :: settings where
  "example_settings =
     \<lparr>ALLOCATION_ACCOUNT_ENABLED = False,
      ALLOCATION_ACCOUNT_MAPPING = [(''cluster'', ''slurm_account_name'')],
      INVOICE_ENABLED = False, INVOICE_DEFAULT_STATUS = ''Pending Payment''\<rparr>"

definition example_allocation_request :: allocation_form_data where
  "example_allocation_request =
     \<lparr>fd_project = Some example_project, fd_resource = Some example_resource,
      fd_allocation_account = None\<rparr>"

definition example_unlimited_request :: allocation_form_data where
  "example_unlimited_request =
     \<lparr>fd_project = Some example_project,
      fd_resource = Some (example_resource\<lparr>res_allocation_limit := Some 0\<rparr>),
      fd_allocation_account = None\<rparr>"

text \<open>
  Stand-ins for the model methods: no project needs review, every allocation expires in
  30 days, user 10 is the manager, and removing a user marks the user's rows.
\<close>

definition example_api :: model_api where
  "example_api =
     \<lparr>needs_review = (\<lambda>p. False),
      expires_in = (\<lambda>a. 30),
      has_manager_perm = (\<lambda>st a u. user_pk u = 10),
      Allocation_remove_user =
        (\<lambda>a u st. st\<lparr>allocation_users :=
           map (\<lambda>au. if au_allocation au = alloc_pk a \<and> au_user au = u
                     then au\<lparr>au_status := ''Removed''\<rparr> else au) (allocation_users st)\<rparr>),
      Project_remove_user =
        (\<lambda>p u st. st\<lparr>project_users :=
           map (\<lambda>pu. if pu_project pu = proj_pk p \<and> pu_user pu = u
                     then pu\<lparr>pu_status := ''Removed''\<rparr> else pu) (project_users st)\<rparr>)\<rparr>"

definition example_renewal :: renew_request where
  "example_renewal =
     \<lparr>req_user = Some example_pi, req_method = POST,
      req_forms = [(2, ''keep_in_project_only'')]\<rparr>"


text \<open>
  A superuser approves the first change request, which asks for 30 more days and for
  the new values 15 and 25 of the two attributes.
\<close>

definition example_change_approval :: change_request_post where
  "example_change_approval =
     \<lparr>post_action = Some ''approve'', post_end_date_extension = Some 30,
      post_notes = ''approved'', post_attribute_forms = [(1, 1, ''15''), (2, 2, ''25'')]\<rparr>"


section \<open>Properties of the archive view\<close>

lemma get_by_pk_pk: "get_by_pk pk_of rows k = Some r \<Longrightarrow> pk_of r = k"
  unfolding get_by_pk_def by (induction rows) (auto split: if_splits)

lemma get_by_pk_save_row:
  assumes "pk_of obj = k"
  shows "get_by_pk pk_of (save_row pk_of obj rows) k = Some obj"
proof (cases "pk_of obj \<in> set (map pk_of rows)")
  case True
  then have "find (\<lambda>r. pk_of r = k) (map (\<lambda>r. if pk_of r = pk_of obj then obj else r) rows)
             = Some obj"
    using assms by (induction rows) auto
  with True show ?thesis by (simp add: get_by_pk_def save_row_def)
next
  case False
  then have "find (\<lambda>r. pk_of r = k) (rows @ [obj]) = Some obj"
    using assms by (induction rows) auto
  with False show ?thesis by (simp add: get_by_pk_def save_row_def)
qed

text \<open>Saving over the one row that has the object's primary key.\<close>

lemma save_row_present:
  assumes "a \<in> set rows"
    and "\<forall>r\<in>set rows. pk_of r = pk_of a \<longrightarrow> r = a"
    and "pk_of b = pk_of a"
  shows "save_row pk_of b rows = map (\<lambda>r. if r = a then b else r) rows"
proof -
  have "pk_of b \<in> set (map pk_of rows)" using assms(1,3) by force
  moreover have "map (\<lambda>r. if pk_of r = pk_of b then b else r) rows
                 = map (\<lambda>r. if r = a then b else r) rows"
    using assms(2,3) by (intro map_cong) auto
  ultimately show ?thesis by (simp add: save_row_def)
qed

text \<open>
  The loop of the archive view, run on rows of the table that have distinct primary keys,
  rewrites exactly those rows.
\<close>

lemma archive_allocations_map:
  assumes "distinct (map alloc_pk qs)"
    and "set qs \<subseteq> set (allocations st)"
    and "\<forall>a\<in>set qs. \<forall>r\<in>set (allocations st). alloc_pk r = alloc_pk a \<longrightarrow> r = a"
  shows "archive_allocations qs now st =
         st\<lparr>allocations :=
              map (\<lambda>r. if r \<in> set qs
                       then r\<lparr>alloc_status := ''Expired'', end_date := Some now\<rparr> else r)
                (allocations st)\<rparr>"
  using assms
proof (induction qs arbitrary: st)
  case Nil
  then show ?case by simp
next
  case (Cons a qs)
  let ?b = "a\<lparr>alloc_status := ''Expired'', end_date := Some now\<rparr>"
  let ?st1 = "save_allocation ?b st"
  let ?upd = "\<lambda>S r. if r \<in> S then r\<lparr>alloc_status := ''Expired'', end_date := Some now\<rparr> else r"
  have a_in: "a \<in> set (allocations st)" using Cons.prems(2) by simp
  have uniq: "\<forall>r\<in>set (allocations st). alloc_pk r = alloc_pk a \<longrightarrow> r = a"
    using Cons.prems(3) by simp
  have st1: "allocations ?st1 = map (\<lambda>r. if r = a then ?b else r) (allocations st)"
    unfolding save_allocation_def using save_row_present[OF a_in uniq, of ?b] by simp
  have notin: "\<forall>q\<in>set qs. alloc_pk q \<noteq> alloc_pk a"
  proof
    fix q assume "q \<in> set qs"
    then have "alloc_pk q \<in> alloc_pk ` set qs" by (rule imageI)
    moreover have "alloc_pk a \<notin> alloc_pk ` set qs" using Cons.prems(1) by simp
    ultimately show "alloc_pk q \<noteq> alloc_pk a" by metis
  qed
  have p1: "distinct (map alloc_pk qs)" using Cons.prems(1) by simp
  have p2: "set qs \<subseteq> set (allocations ?st1)"
  proof
    fix q assume q: "q \<in> set qs"
    then have "q \<in> set (allocations st)" using Cons.prems(2) by auto
    moreover have "q \<noteq> a" using q notin by auto
    ultimately show "q \<in> set (allocations ?st1)" unfolding st1 by force
  qed
  have p3: "\<forall>q\<in>set qs. \<forall>r\<in>set (allocations ?st1). alloc_pk r = alloc_pk q \<longrightarrow> r = q"
  proof (intro ballI impI)
    fix q r
    assume q: "q \<in> set qs" and r: "r \<in> set (allocations ?st1)"
      and e: "alloc_pk r = alloc_pk q"
    from r obtain r0 where r0: "r0 \<in> set (allocations st)" "r = (if r0 = a then ?b else r0)"
      unfolding st1 by auto
    show "r = q"
    proof (cases "r0 = a")
      case True
      then have "alloc_pk r = alloc_pk a" using r0 by simp
      then show ?thesis using notin q e by auto
    next
      case False
      then have "r = r0" using r0 by simp
      then show ?thesis using Cons.prems(3) q r0(1) e by auto
    qed
  qed
  have b_notin: "?b \<notin> set qs" using notin by force
  have "archive_allocations (a # qs) now st = archive_allocations qs now ?st1" by simp
  also have "\<dots> = ?st1\<lparr>allocations := map (?upd (set qs)) (allocations ?st1)\<rparr>"
    by (rule Cons.IH[OF p1 p2 p3])
  also have "\<dots> = st\<lparr>allocations := map (?upd (set (a # qs))) (allocations st)\<rparr>"
  proof -
    have "map (?upd (set qs)) (allocations ?st1) = map (?upd (set (a # qs))) (allocations st)"
      unfolding st1 map_map using b_notin notin by (intro map_cong) auto
    then show ?thesis by (simp add: save_allocation_def)
  qed
  finally show ?case .
qed

text \<open>
  C1. Archiving a project that exists, in a database whose allocations have distinct
  primary keys: the response redirects to the project, the project's status is
  \<open>Archived\<close>, the \<open>project_archive\<close> signal is sent, every allocation of the project
  whose status is \<open>Active\<close> gets the status \<open>Expired\<close> and the current time as end date,
  and every other allocation is the row it was.
\<close>

theorem ProjectArchiveProjectView_post_archives:
  assumes "get_by_pk proj_pk (projects st) pk = Some p"
      and "distinct (map alloc_pk (allocations st))"
  shows "fst (ProjectArchiveProjectView_post now pk st) =
            Inr (HttpResponseRedirect (reverse ''project-detail'' (Some pk)))
     \<and> get_by_pk proj_pk (projects (snd (ProjectArchiveProjectView_post now pk st))) pk
          = Some (p\<lparr>proj_status := ''Archived''\<rparr>)
     \<and> sent_signals (snd (ProjectArchiveProjectView_post now pk st))
          = sent_signals st @ [project_archive pk]
     \<and> allocations (snd (ProjectArchiveProjectView_post now pk st)) =
         map (\<lambda>a. if alloc_project a = pk \<and> alloc_status a = ''Active''
                  then a\<lparr>alloc_status := ''Expired'', end_date := Some now\<rparr> else a)
           (allocations st)"
proof -
  have pk: "proj_pk p = pk" using assms(1) by (rule get_by_pk_pk)
  let ?proj = "p\<lparr>proj_status := ''Archived''\<rparr>"
  let ?st2 = "send_signal (project_archive pk) (save_project ?proj st)"
  let ?active = "filter (\<lambda>a. alloc_status a = ''Active'') (allocation_set ?st2 ?proj)"
  let ?upd = "\<lambda>r. r\<lparr>alloc_status := ''Expired'', end_date := Some now\<rparr>"
  have allocs: "allocations ?st2 = allocations st"
    by (simp add: send_signal_def save_project_def)
  have active: "?active =
      filter (\<lambda>a. alloc_project a = pk \<and> alloc_status a = ''Active'') (allocations st)"
    by (simp add: allocation_set_def allocs pk conj_commute)
  have d: "distinct (map alloc_pk ?active)"
    unfolding active using assms(2) by (rule distinct_map_filter)
  have sub: "set ?active \<subseteq> set (allocations ?st2)" unfolding active allocs by auto
  have uniq: "\<forall>a\<in>set ?active. \<forall>r\<in>set (allocations ?st2). alloc_pk r = alloc_pk a \<longrightarrow> r = a"
    unfolding active allocs using assms(2) by (auto simp: distinct_map inj_on_def)
  have loop: "archive_allocations ?active now ?st2 =
      ?st2\<lparr>allocations := map (\<lambda>r. if r \<in> set ?active then ?upd r else r) (allocations ?st2)\<rparr>"
    by (rule archive_allocations_map[OF d sub uniq])
  have m: "map (\<lambda>r. if r \<in> set ?active then ?upd r else r) (allocations ?st2)
      = map (\<lambda>a. if alloc_project a = pk \<and> alloc_status a = ''Active'' then ?upd a else a)
          (allocations st)"
    unfolding allocs active by (intro map_cong) auto
  have post: "ProjectArchiveProjectView_post now pk st =
      (Inr (HttpResponseRedirect (reverse ''project-detail'' (Some pk))),
       archive_allocations ?active now ?st2)"
    using assms(1) pk by (simp add: ProjectArchiveProjectView_post_def Let_def)
  have g: "get_by_pk proj_pk (projects (archive_allocations ?active now ?st2)) pk = Some ?proj"
    unfolding loop using get_by_pk_save_row[of proj_pk ?proj pk "projects st"] pk
    by (simp add: send_signal_def save_project_def)
  have s: "sent_signals (archive_allocations ?active now ?st2)
           = sent_signals st @ [project_archive pk]"
    unfolding loop by (simp add: send_signal_def save_project_def)
  have a: "allocations (archive_allocations ?active now ?st2) =
           map (\<lambda>a. if alloc_project a = pk \<and> alloc_status a = ''Active'' then ?upd a else a)
             (allocations st)"
    unfolding loop using m by simp
  show ?thesis unfolding post fst_conv snd_conv using g s a by blast
qed

theorem ProjectArchiveProjectView_post_archives_witness:
  "get_by_pk proj_pk (projects example_state) 1 = Some example_project
   \<and> distinct (map alloc_pk (allocations example_state))
   \<and> fst (ProjectArchiveProjectView_post 500 1 example_state) =
        Inr (HttpResponseRedirect (reverse ''project-detail'' (Some 1)))
   \<and> map alloc_status (allocations (snd (ProjectArchiveProjectView_post 500 1 example_state)))
        = [''Expired'', ''New'']
   \<and> map end_date (allocations (snd (ProjectArchiveProjectView_post 500 1 example_state)))
        = [Some 500, None]
   \<and> sent_signals (snd (ProjectArchiveProjectView_post 500 1 example_state))
        = [project_archive 1]"
proof -
  have h1: "get_by_pk proj_pk (projects example_state) 1 = Some example_project"
    by (simp add: example_state_def example_project_def get_by_pk_def)
  have h2: "distinct (map alloc_pk (allocations example_state))"
    by (simp add: example_state_def example_active_allocation_def example_new_allocation_def)
  have a: "allocations example_state = [example_active_allocation, example_new_allocation]"
    and s: "sent_signals example_state = []"
    by (simp_all add: example_state_def)
  show ?thesis
    using ProjectArchiveProjectView_post_archives[OF h1 h2, of 500] h1 h2
    by (simp add: a s example_active_allocation_def example_new_allocation_def)
qed

section \<open>Properties of the update form's date check\<close>

text \<open>
  C7. \<open>AllocationUpdateForm.clean\<close> raises \<open>End date cannot be less than start date\<close>
  exactly when both dates are there and the end date is strictly earlier than the
  start date; when a date is missing or the end date is on or after the start date it
  raises nothing.
\<close>

theorem AllocationUpdateForm_clean_end_before_start:
  "(AllocationUpdateForm_clean start_d end_d
      = Some (ValidationError ''End date cannot be less than start date''))
     = (\<exists>s e. start_d = Some s \<and> end_d = Some e \<and> e < s)
   \<and> (AllocationUpdateForm_clean start_d end_d = None)
     = (start_d = None \<or> end_d = None
        \<or> (\<exists>s e. start_d = Some s \<and> end_d = Some e \<and> s \<le> e))"
  by (auto simp: AllocationUpdateForm_clean_def split: option.splits)

theorem AllocationUpdateForm_clean_end_before_start_witness:
  "AllocationUpdateForm_clean (Some 20) (Some 10)
     = Some (ValidationError ''End date cannot be less than start date'')
   \<and> AllocationUpdateForm_clean (Some 10) (Some 10) = None
   \<and> AllocationUpdateForm_clean None (Some 10) = None"
  using AllocationUpdateForm_clean_end_before_start[of "Some 20" "Some 10"]
    AllocationUpdateForm_clean_end_before_start[of "Some 10" "Some 10"]
    AllocationUpdateForm_clean_end_before_start[of None "Some 10"]
  by simp


section \<open>Properties of \<open>handle_pagination\<close>\<close>















text \<open>
  The upper bound on the page size is needed as well: for a page size of 10 to the
  power 400 the quotient \<open>3 / per_page\<close> is rounded to \<open>0.0\<close>, there are 0 pages, and
  \<open>paginator.page(paginator.num_pages)\<close> raises \<open>EmptyPage\<close> inside the handler of
  \<open>EmptyPage\<close>.
\<close>

lemma handle_pagination_page_size_rounded_to_zero:
  "handle_pagination (PageInt 1) [1::nat, 2, 3] (10 ^ 400) = Inl EmptyPage"
  by code_simp


section \<open>Properties of \<open>determine_automated_institution_choice\<close>\<close>

lemma str_startswith_iff: "str_startswith s n \<longleftrightarrow> (\<exists>q. s = n @ q)"
  by (induction s n rule: str_startswith.induct) auto

text \<open>\<open>str_contains\<close> is the substring test.\<close>

lemma str_contains_iff: "str_contains s n \<longleftrightarrow> (\<exists>p q. s = p @ n @ q)"
proof (induction s)
  case Nil
  then show ?case by auto
next
  case (Cons c cs)
  show ?case
  proof
    assume "str_contains (c # cs) n"
    then consider "str_startswith (c # cs) n" | "str_contains cs n" by auto
    then show "\<exists>p q. c # cs = p @ n @ q"
    proof cases
      case 1
      then obtain q where "c # cs = n @ q" using str_startswith_iff by blast
      then have "c # cs = [] @ n @ q" by simp
      then show ?thesis by blast
    next
      case 2
      then obtain p q where "cs = p @ n @ q" using Cons.IH by blast
      then have "c # cs = (c # p) @ n @ q" by simp
      then show ?thesis by blast
    qed
  next
    assume "\<exists>p q. c # cs = p @ n @ q"
    then obtain p q where e: "c # cs = p @ n @ q" by blast
    show "str_contains (c # cs) n"
    proof (cases p)
      case Nil
      then have "str_startswith (c # cs) n" using e str_startswith_iff by auto
      then show ?thesis by simp
    next
      case (Cons a p')
      then have "cs = p' @ n @ q" using e by simp
      then have "str_contains cs n" using Cons.IH by blast
      then show ?thesis by simp
    qed
  qed
qed

text \<open>
  Where the address has one \<open>@\<close> the function does what its docstring says: a direct
  match (with a value that is not empty) wins whatever the order of the map, and
  without any match the project keeps its institution.
\<close>

lemma determine_automated_institution_choice_direct:
  assumes "pi_email_domain_of (email pi) = Some d" and "map_of institution_map d = Some v"
    and "v \<noteq> []"
  shows "determine_automated_institution_choice proj pi institution_map
         = Inr (v, proj\<lparr>institution := v\<rparr>)"
  using assms
  by (simp add: determine_automated_institution_choice_def dict_get_def truthy_str_def)

lemma indirect_institution_none:
  assumes "\<forall>kv\<in>set institution_map. \<not> str_contains d (fst kv)"
  shows "indirect_institution institution_map (Some d) = Inr None"
  using assms by (induction institution_map) auto

lemma determine_automated_institution_choice_no_match:
  assumes "pi_email_domain_of (email pi) = Some d"
    and "\<not> truthy_str (map_of institution_map d)"
    and "\<forall>kv\<in>set institution_map. \<not> str_contains d (fst kv)"
  shows "determine_automated_institution_choice proj pi institution_map
         = Inr (institution proj, proj)"
  using assms indirect_institution_none[OF assms(3)]
  by (simp add: determine_automated_institution_choice_def dict_get_def)

lemma str_split_no_separator: "c \<notin> set s \<Longrightarrow> str_split c s = [s]"
  by (induction s) auto

text \<open>
  An address without \<open>@\<close> and a map that is not empty: the \<open>ValueError\<close> of the unpacking
  is caught, and the loop then raises \<open>TypeError\<close> at its first key.
\<close>

lemma determine_automated_institution_choice_no_at:
  assumes "CHR ''@'' \<notin> set (email pi)" and "institution_map \<noteq> []"
  shows "determine_automated_institution_choice proj pi institution_map = Inl TypeError"
proof -
  have d: "pi_email_domain_of (email pi) = None"
    using assms(1) by (simp add: pi_email_domain_of_def str_split_no_separator)
  obtain k v rest where m: "institution_map = (k, v) # rest"
    using assms(2) by (cases institution_map) auto
  show ?thesis
    by (simp add: determine_automated_institution_choice_def d dict_get_def truthy_str_def m)
qed

text \<open>
  C10, at the input where the code and the claim part: the PI's address is \<open>member\<close>,
  the map has one entry, and the call raises \<open>TypeError\<close>.
\<close>

theorem determine_automated_institution_choice_raises:
  "determine_automated_institution_choice example_project example_member
     [(''example.edu'', ''Example University'')] = Inl TypeError"
  by (simp add: determine_automated_institution_choice_def example_member_def
      pi_email_domain_of_def dict_get_def truthy_str_def)

section \<open>Properties of \<open>AllocationDetailView.post\<close>\<close>

lemma send_user_signals_eq:
  "send_user_signals sig aus st =
     st\<lparr>sent_signals := sent_signals st @ map (\<lambda>au. sig (au_pk au)) aus\<rparr>"
  by (induction aus arbitrary: st) (simp_all add: send_signal_def)

text \<open>
  C2 fails in the code. The claim is that a POST of an authenticated user who is no
  superuser leaves the allocation unchanged and is answered by the redirect to the
  allocation with the message \<open>You do not have permission to update the allocation\<close>.
  For an allocation that exists, \<open>post\<close> adds the message and then raises
  \<open>UnboundLocalError\<close> at \<open>return redirect(self.object)\<close>: the table of allocations is
  the one it was, and there is no redirect. A user who passes \<open>test_func\<close>, as every
  user of the allocation does, reaches \<open>post\<close> through \<open>dispatch\<close>, so the request ends
  in the exception.
\<close>

theorem AllocationDetailView_post_not_superuser_raises:
  assumes "\<not> is_superuser request_user"
      and "get_by_pk alloc_pk (allocations st) pk = Some obj"
  shows "AllocationDetailView_post full_clean default_length now request_user pk action posted st =
           (Inl UnboundLocalError,
            st\<lparr>messages := messages st
                   @ [(SUCCESS, ''You do not have permission to update the allocation'')]\<rparr>)
     \<and> (can_view_all_allocations request_user \<or> has_user_perm st obj request_user \<longrightarrow>
          AllocationDetailView_dispatch can_view_all_allocations has_user_perm full_clean
            default_length now (Some request_user) pk action posted st =
            (Inl UnboundLocalError,
             st\<lparr>messages := messages st
                    @ [(SUCCESS, ''You do not have permission to update the allocation'')]\<rparr>))"
  using assms
  by (simp add: AllocationDetailView_post_def AllocationDetailView_dispatch_def
      AllocationDetailView_test_func_def add_message_def)

theorem AllocationDetailView_post_not_superuser_raises_witness:
  "\<not> is_superuser example_member
   \<and> get_by_pk alloc_pk (allocations example_state) 2 = Some example_new_allocation
   \<and> AllocationDetailView_post example_full_clean 365 300 example_member 2 (Some ''update'')
        example_approval example_state =
        (Inl UnboundLocalError,
         example_state\<lparr>messages := messages example_state
            @ [(SUCCESS, ''You do not have permission to update the allocation'')]\<rparr>)
   \<and> AllocationDetailView_dispatch (\<lambda>u. False) (\<lambda>st a u. user_pk u = 11) example_full_clean
        365 300 (Some example_member) 2 (Some ''update'') example_approval example_state =
        (Inl UnboundLocalError,
         example_state\<lparr>messages := messages example_state
            @ [(SUCCESS, ''You do not have permission to update the allocation'')]\<rparr>)"
proof -
  have h1: "\<not> is_superuser example_member" by (simp add: example_member_def)
  have h2: "get_by_pk alloc_pk (allocations example_state) 2 = Some example_new_allocation"
    by (simp add: example_state_def get_by_pk_def example_active_allocation_def
        example_new_allocation_def)
  have h3: "user_pk example_member = 11" by (simp add: example_member_def)
  show ?thesis
    using AllocationDetailView_post_not_superuser_raises[OF h1 h2, of example_full_clean 365 300
        "Some ''update''" example_approval "\<lambda>u. False" "\<lambda>st a u. user_pk u = 11"] h1 h2 h3
    by blast
qed

text \<open>
  C3, as the code has it. A superuser posts \<open>approve\<close> or \<open>auto-approve\<close> for an
  allocation whose status is not \<open>Active\<close>, and the form built from the posted data
  (with the status \<open>Active\<close>, the start date replaced by the current time when the
  allocation has none, and the end date replaced by the current time plus the default
  length) validates. Then the response is the success redirect; the allocation's status
  is \<open>Active\<close>; its start date is the current time if it had none, and otherwise the
  start date that the form submitted; its end date is the current time plus the default
  length; and the signals sent are \<open>allocation_activate\<close> and then
  \<open>allocation_activate_user\<close> for every user of the allocation whose status is none of
  \<open>Removed\<close>, \<open>Error\<close>, \<open>DeclinedEULA\<close>, \<open>PendingEULA\<close>.
\<close>

theorem AllocationDetailView_post_approve:
  assumes su: "is_superuser request_user"
      and act: "action = Some ''approve'' \<or> action = Some ''auto-approve''"
      and obj: "get_by_pk alloc_pk (allocations st) pk = Some obj"
      and old: "alloc_status obj \<noteq> ''Active''"
      and valid: "AllocationUpdateForm_is_valid full_clean request_user obj
                    (posted\<lparr>post_status := Some ''Active'',
                            post_start_date := (if start_date obj = None then DateValue now
                                                else post_start_date posted),
                            post_end_date := DateValue (now + default_length)\<rparr>)"
  shows "fst (AllocationDetailView_post full_clean default_length now request_user pk action posted st)
           = Inr (HttpResponseRedirect (get_success_url action pk))
     \<and> (\<exists>obj'. get_by_pk alloc_pk
                 (allocations (snd (AllocationDetailView_post full_clean default_length now request_user
                                      pk action posted st))) pk = Some obj'
           \<and> alloc_status obj' = ''Active''
           \<and> start_date obj' = (if start_date obj = None then Some now
                                 else cleaned_date (post_start_date posted))
           \<and> end_date obj' = Some (now + default_length))
     \<and> sent_signals (snd (AllocationDetailView_post full_clean default_length now request_user pk action
                             posted st))
         = sent_signals st @ [allocation_activate pk]
           @ map (\<lambda>au. allocation_activate_user (au_pk au))
               (filter (\<lambda>au. au_allocation au = pk
                           \<and> au_status au \<notin> set [''Removed'', ''Error'', ''DeclinedEULA'',
                                                   ''PendingEULA''])
                  (allocation_users st))"
proof -
  have pk: "alloc_pk obj = pk" using obj by (rule get_by_pk_pk)
  let ?d = "posted\<lparr>post_status := Some ''Active'',
                   post_start_date := (if start_date obj = None then DateValue now
                                       else post_start_date posted),
                   post_end_date := DateValue (now + default_length)\<rparr>"
  let ?plan = "\<lparr>plan_data = ?d,
                plan_allocation_signal = Some allocation_activate,
                plan_allocation_user_qs =
                  Some [''Removed'', ''Error'', ''DeclinedEULA'', ''PendingEULA''],
                plan_allocation_user_signal = Some allocation_activate_user,
                plan_email_kwargs =
                  Some (''Allocation Activated'', ''email/allocation_activated.txt'')\<rparr>"
  let ?msg = "(if action \<noteq> Some ''auto-approve'' then ''Allocation Activated!''
               else ''Allocation to {} has been ACTIVATED for {} {} ({})'')"
  let ?st1 = "add_message SUCCESS ?msg st"
  have plan: "plan_active default_length now action obj (posted\<lparr>post_status := Some ''Active''\<rparr>) st
              = Inr (?plan, ?st1)"
    using act by (auto simp: plan_active_def Let_def)
  have post: "AllocationDetailView_post full_clean default_length now request_user pk action posted st
              = process_form full_clean request_user action obj ?plan ?st1"
    using su act obj old plan by (auto simp: AllocationDetailView_post_def Let_def)
  let ?obj' = "AllocationUpdateForm_save request_user obj ?d"
  let ?st2 = "save_allocation ?obj' ?st1"
  have pf: "process_form full_clean request_user action obj ?plan ?st1
            = (Inr (HttpResponseRedirect (get_success_url action pk)),
               post_save_actions ?obj' ?plan ?st2)"
    using valid pk by (simp add: process_form_def form_valid_def)
  have pk': "alloc_pk ?obj' = pk" using pk by (simp add: AllocationUpdateForm_save_def)
  have psa_alloc: "allocations (post_save_actions ?obj' ?plan ?st2) = allocations ?st2"
    by (simp add: post_save_actions_def Let_def send_user_signals_eq send_signal_def
        send_mail_def)
  have g: "get_by_pk alloc_pk (allocations ?st2) pk = Some ?obj'"
    using get_by_pk_save_row[of alloc_pk ?obj' pk] pk' by (simp add: save_allocation_def)
  have sig: "sent_signals (post_save_actions ?obj' ?plan ?st2)
      = sent_signals st @ [allocation_activate pk]
        @ map (\<lambda>au. allocation_activate_user (au_pk au))
            (filter (\<lambda>au. au_allocation au = pk
                        \<and> au_status au \<notin> set [''Removed'', ''Error'', ''DeclinedEULA'',
                                                ''PendingEULA''])
               (allocation_users st))"
    using pk'
    by (simp add: post_save_actions_def Let_def send_user_signals_eq send_signal_def
        send_mail_def allocationuser_set_def save_allocation_def add_message_def conj_commute)
  have f: "alloc_status ?obj' = ''Active''"
    "start_date ?obj' = (if start_date obj = None then Some now
                         else cleaned_date (post_start_date posted))"
    "end_date ?obj' = Some (now + default_length)"
    by (simp_all add: AllocationUpdateForm_save_def cleaned_date_def)
  show ?thesis
    unfolding post pf fst_conv snd_conv psa_alloc using g f sig by blast
qed

theorem AllocationDetailView_post_approve_witness:
  "is_superuser example_admin
   \<and> get_by_pk alloc_pk (allocations example_state) 2 = Some example_new_allocation
   \<and> alloc_status example_new_allocation \<noteq> ''Active''
   \<and> fst (AllocationDetailView_post example_full_clean 365 300 example_admin 2 (Some ''approve'')
             example_approval example_state)
       = Inr (HttpResponseRedirect (reverse ''allocation-detail'' (Some 2)))
   \<and> (\<exists>obj'. get_by_pk alloc_pk
               (allocations (snd (AllocationDetailView_post example_full_clean 365 300 example_admin 2
                                    (Some ''approve'') example_approval example_state))) 2
               = Some obj'
         \<and> alloc_status obj' = ''Active'' \<and> start_date obj' = Some 200
         \<and> end_date obj' = Some 665)
   \<and> sent_signals (snd (AllocationDetailView_post example_full_clean 365 300 example_admin 2 (Some ''approve'')
                           example_approval example_state))
       = [allocation_activate 2, allocation_activate_user 3]"
proof -
  have su: "is_superuser example_admin" by (simp add: example_admin_def)
  have act: "Some ''approve'' = Some ''approve'' \<or> Some ''approve'' = Some ''auto-approve''"
    by simp
  have obj: "get_by_pk alloc_pk (allocations example_state) 2 = Some example_new_allocation"
    by (simp add: example_state_def get_by_pk_def example_active_allocation_def
        example_new_allocation_def)
  have old: "alloc_status example_new_allocation \<noteq> ''Active''"
    by (simp add: example_new_allocation_def)
  have valid: "AllocationUpdateForm_is_valid example_full_clean example_admin
       example_new_allocation
       (example_approval\<lparr>post_status := Some ''Active'',
          post_start_date := (if start_date example_new_allocation = None then DateValue 300
                              else post_start_date example_approval),
          post_end_date := DateValue (300 + 365)\<rparr>)"
    by (simp add: AllocationUpdateForm_is_valid_def example_approval_def
        example_new_allocation_def cleaned_date_def AllocationUpdateForm_clean_def
        example_full_clean_def AllocationUpdateForm_save_def)
  have e: "start_date example_new_allocation = Some 100"
    "cleaned_date (post_start_date example_approval) = Some 200"
    "sent_signals example_state = []"
    "filter (\<lambda>au. au_allocation au = 2
                \<and> au_status au \<noteq> ''Removed'' \<and> au_status au \<noteq> ''Error''
                \<and> au_status au \<noteq> ''DeclinedEULA'' \<and> au_status au \<noteq> ''PendingEULA'')
       (allocation_users example_state)
     = [\<lparr>au_pk = 3, au_allocation = 2, au_user = 10, au_status = ''Active''\<rparr>]"
    by (simp_all add: example_new_allocation_def example_approval_def cleaned_date_def
        example_state_def)
  show ?thesis
    using AllocationDetailView_post_approve[OF su act obj old valid] su obj old
    by (simp add: e get_success_url_def)
qed

text \<open>
  C3 as stated says that a start date already set is kept. The new allocation of the
  example has the start date 100; a superuser approves it with the start date field
  edited to 200, and the saved start date is 200.
\<close>

theorem AllocationDetailView_post_approve_start_date:
  "start_date example_new_allocation = Some 100
   \<and> get_by_pk alloc_pk
       (allocations (snd (AllocationDetailView_post example_full_clean 365 300 example_admin 2 (Some ''approve'')
                            example_approval example_state))) 2
     = Some (example_new_allocation\<lparr>alloc_status := ''Active'', start_date := Some 200,
                                    end_date := Some 665\<rparr>)"
  by (simp add: AllocationDetailView_post_def example_state_def example_admin_def
      example_approval_def example_new_allocation_def example_active_allocation_def
      get_by_pk_def plan_active_def process_form_def AllocationUpdateForm_is_valid_def
      example_full_clean_def
      AllocationUpdateForm_clean_def cleaned_date_def form_valid_def
      AllocationUpdateForm_save_def save_allocation_def save_row_def add_message_def
      post_save_actions_def send_signal_def send_mail_def allocationuser_set_def Let_def)


section \<open>Properties of the removal of users\<close>

lemma clean_forms_rejects_pi:
  assumes "f \<in> set forms" and "cd_selected f"
    and "get_by_pk proj_pk (projects st) (alloc_project (cd_allocation f)) = Some p"
    and "proj_pi p = user_pk (cd_user f)"
    and "\<forall>g\<in>set forms.
           get_by_pk proj_pk (projects st) (alloc_project (cd_allocation g)) \<noteq> None"
  shows "clean_forms eula_enable is_pi get_eula st REMOVE forms =
           Inr (Inl (ValidationError ''Cannot remove the project PI from an allocation.''))"
  using assms
proof (induction forms)
  case Nil
  then show ?case by simp
next
  case (Cons form rest)
  show ?case
  proof (cases "form = f")
    case True
    then show ?thesis using Cons.prems by simp
  next
    case False
    then have "f \<in> set rest" using Cons.prems(1) by simp
    then have IH: "clean_forms eula_enable is_pi get_eula st REMOVE rest =
           Inr (Inl (ValidationError ''Cannot remove the project PI from an allocation.''))"
      using Cons.IH Cons.prems by simp
    obtain q where
      q: "get_by_pk proj_pk (projects st) (alloc_project (cd_allocation form)) = Some q"
      using Cons.prems(5) by auto
    show ?thesis using IH q by (simp add: prepend_form_def)
  qed
qed

text \<open>
  C8, as the code has it. If the user is the project's PI, \<open>remove_user_from_project\<close>
  returns \<open>False\<close> and leaves the whole state as it was. A removal formset (every
  allocation of its forms having its project) in which a selected form names the PI of
  its allocation's project is not valid; and when none of its forms has an error of
  its own, \<open>clean\<close> raises \<open>Cannot remove the project PI from an allocation.\<close>
\<close>

theorem project_pi_is_not_removed:
  "(proj_pi project_obj = user_pk user_obj \<longrightarrow>
      remove_user_from_project project_obj user_obj send_signals obj_class st = (Inr False, st))
   \<and> (f \<in> set forms \<and> cd_selected f
       \<and> get_by_pk proj_pk (projects st) (alloc_project (cd_allocation f)) = Some p
       \<and> proj_pi p = user_pk (cd_user f)
       \<and> (\<forall>g\<in>set forms.
             get_by_pk proj_pk (projects st) (alloc_project (cd_allocation g)) \<noteq> None) \<longrightarrow>
      BaseAllocationUserFormSet_is_valid eula_enable is_pi get_eula st REMOVE forms = Inr False
      \<and> (filter (\<lambda>g. form_errors g \<noteq> []) forms = [] \<longrightarrow>
           BaseAllocationUserFormSet_clean eula_enable is_pi get_eula st REMOVE forms =
             Inr (Inl (ValidationError ''Cannot remove the project PI from an allocation.''))))"
proof (intro conjI impI)
  assume "proj_pi project_obj = user_pk user_obj"
  then show "remove_user_from_project project_obj user_obj send_signals obj_class st = (Inr False, st)"
    by (simp add: remove_user_from_project_def)
next
  assume a: "f \<in> set forms \<and> cd_selected f
       \<and> get_by_pk proj_pk (projects st) (alloc_project (cd_allocation f)) = Some p
       \<and> proj_pi p = user_pk (cd_user f)
       \<and> (\<forall>g\<in>set forms.
             get_by_pk proj_pk (projects st) (alloc_project (cd_allocation g)) \<noteq> None)"
  then have c: "clean_forms eula_enable is_pi get_eula st REMOVE forms =
           Inr (Inl (ValidationError ''Cannot remove the project PI from an allocation.''))"
    using clean_forms_rejects_pi[of f forms st p] by blast
  have ne: "forms \<noteq> []" using a by auto
  show "BaseAllocationUserFormSet_is_valid eula_enable is_pi get_eula st REMOVE forms = Inr False"
    using c ne
    by (simp add: BaseAllocationUserFormSet_is_valid_def BaseAllocationUserFormSet_clean_def)
  assume "filter (\<lambda>g. form_errors g \<noteq> []) forms = []"
  then show "BaseAllocationUserFormSet_clean eula_enable is_pi get_eula st REMOVE forms =
             Inr (Inl (ValidationError ''Cannot remove the project PI from an allocation.''))"
    using c by (simp add: BaseAllocationUserFormSet_clean_def)
qed

theorem project_pi_is_not_removed_witness:
  "proj_pi example_project = user_pk example_pi
   \<and> remove_user_from_project example_project example_pi True None example_state
       = (Inr False, example_state)
   \<and> example_pi_form \<in> set [example_member_form, example_pi_form]
   \<and> cd_selected example_pi_form
   \<and> get_by_pk proj_pk (projects example_state) (alloc_project (cd_allocation example_pi_form))
       = Some example_project
   \<and> filter (\<lambda>g. form_errors g \<noteq> []) [example_member_form, example_pi_form] = []
   \<and> BaseAllocationUserFormSet_is_valid False (\<lambda>u. False) (\<lambda>a. None) example_state REMOVE
        [example_member_form, example_pi_form] = Inr False
   \<and> BaseAllocationUserFormSet_clean False (\<lambda>u. False) (\<lambda>a. None) example_state REMOVE
        [example_member_form, example_pi_form]
       = Inr (Inl (ValidationError ''Cannot remove the project PI from an allocation.''))"
proof -
  have h1: "proj_pi example_project = user_pk example_pi"
    by (simp add: example_project_def example_pi_def)
  have h2: "example_pi_form \<in> set [example_member_form, example_pi_form]" by simp
  have h3: "cd_selected example_pi_form" by (simp add: example_pi_form_def)
  have h4: "get_by_pk proj_pk (projects example_state)
              (alloc_project (cd_allocation example_pi_form)) = Some example_project"
    by (simp add: example_state_def example_pi_form_def example_active_allocation_def
        example_project_def get_by_pk_def)
  have h5: "proj_pi example_project = user_pk (cd_user example_pi_form)"
    by (simp add: example_project_def example_pi_form_def example_pi_def)
  have h6: "\<forall>g\<in>set [example_member_form, example_pi_form].
              get_by_pk proj_pk (projects example_state) (alloc_project (cd_allocation g))
              \<noteq> None"
    by (simp add: example_state_def example_pi_form_def example_member_form_def
        example_active_allocation_def example_project_def get_by_pk_def)
  have h7: "filter (\<lambda>g. form_errors g \<noteq> []) [example_member_form, example_pi_form] = []"
    by (simp add: example_pi_form_def example_member_form_def)
  show ?thesis
    using project_pi_is_not_removed[of example_project example_pi True None example_state
        example_pi_form "[example_member_form, example_pi_form]" example_project
        False "\<lambda>u. False" "\<lambda>a. None"]
      h1 h2 h3 h4 h5 h6 h7
    by blast
qed

text \<open>
  C8 as stated fails when a form of the formset has an error of its own: \<open>clean\<close>
  returns at once, and raises nothing about the PI that another form selects.
\<close>

theorem BaseAllocationUserFormSet_clean_skipped:
  "BaseAllocationUserFormSet_clean False (\<lambda>u. False) (\<lambda>a. None) example_state REMOVE
     [example_invalid_form, example_pi_form]
   = Inr (Inr [example_invalid_form, example_pi_form])"
  by (simp add: BaseAllocationUserFormSet_clean_def example_invalid_form_def)

section \<open>Properties of \<open>AllocationRenewView\<close>\<close>

text \<open>
  C5. For an allocation that exists (and whose project exists): unless renewal is
  enabled, the allocation's status is \<open>Active\<close>, its project does not need review and it
  expires in at most 60 days, \<open>dispatch\<close> answers with a redirect and an error message
  and changes nothing else, so every allocation is the row it was. When all four hold,
  the request is a POST of a logged-in user who passes \<open>test_func\<close> (the requests for
  which the formset is built at all) and the review formset validates, the response
  redirects to the allocation and the allocation is saved with the status
  \<open>Renewal Requested\<close>.
\<close>

theorem AllocationRenewView_dispatch_renewal:
  assumes a: "get_by_pk alloc_pk (allocations st) pk = Some a"
      and p: "get_by_pk proj_pk (projects st) (alloc_project a) = Some proj"
  shows "(\<not> (renewal_enabled \<and> alloc_status a = ''Active'' \<and> \<not> needs_review api proj
             \<and> expires_in api a \<le> 60) \<longrightarrow>
            (\<exists>url msg. AllocationRenewView_dispatch renewal_enabled api req pk st
               = (Inr (HttpResponseRedirect url),
                  st\<lparr>messages := messages st @ [(ERROR, msg)]\<rparr>))
            \<and> allocations (snd (AllocationRenewView_dispatch renewal_enabled api req pk st))
                = allocations st)
       \<and> (renewal_enabled \<and> alloc_status a = ''Active'' \<and> \<not> needs_review api proj
            \<and> expires_in api a \<le> 60
            \<and> req_method req = POST \<and> req_user req = Some request_user
            \<and> has_manager_perm api st a request_user
            \<and> review_formset_is_valid
                 (AllocationRenewView_get_formset_queryset st a proj request_user)
                 (req_forms req) \<longrightarrow>
            fst (AllocationRenewView_dispatch renewal_enabled api req pk st)
              = Inr (HttpResponseRedirect (absolute_url_of_allocation pk))
            \<and> get_by_pk alloc_pk
                (allocations (snd (AllocationRenewView_dispatch renewal_enabled api req pk st)))
                pk
              = Some (a\<lparr>alloc_status := ''Renewal Requested''\<rparr>))"
proof (intro conjI impI)
  assume n: "\<not> (renewal_enabled \<and> alloc_status a = ''Active'' \<and> \<not> needs_review api proj
                \<and> expires_in api a \<le> 60)"
  show r: "\<exists>url msg. AllocationRenewView_dispatch renewal_enabled api req pk st
           = (Inr (HttpResponseRedirect url), st\<lparr>messages := messages st @ [(ERROR, msg)]\<rparr>)"
    using a p n by (auto simp: AllocationRenewView_dispatch_def add_message_def)
  then show "allocations (snd (AllocationRenewView_dispatch renewal_enabled api req pk st))
             = allocations st"
    by auto
next
  assume h: "renewal_enabled \<and> alloc_status a = ''Active'' \<and> \<not> needs_review api proj
            \<and> expires_in api a \<le> 60
            \<and> req_method req = POST \<and> req_user req = Some request_user
            \<and> has_manager_perm api st a request_user
            \<and> review_formset_is_valid
                 (AllocationRenewView_get_formset_queryset st a proj request_user)
                 (req_forms req)"
  have pk: "alloc_pk a = pk" using a by (rule get_by_pk_pk)
  let ?qs = "AllocationRenewView_get_formset_queryset st a proj request_user"
  let ?st1 = "review_formset_save api a proj ?qs (req_forms req) st"
  let ?a' = "a\<lparr>alloc_status := ''Renewal Requested''\<rparr>"
  have d: "AllocationRenewView_dispatch renewal_enabled api req pk st
           = AllocationRenewView_formset_valid api a proj ?qs (req_forms req) st"
    using a p h
    by (simp add: AllocationRenewView_dispatch_def AllocationRenewView_super_dispatch_def
        AllocationRenewView_test_func_def AllocationRenewView_post_def Let_def)
  have g: "get_by_pk alloc_pk (save_row alloc_pk ?a' (allocations ?st1)) pk = Some ?a'"
    using get_by_pk_save_row[of alloc_pk ?a' pk] pk by simp
  show "fst (AllocationRenewView_dispatch renewal_enabled api req pk st)
          = Inr (HttpResponseRedirect (absolute_url_of_allocation pk))"
    unfolding d using pk by (simp add: AllocationRenewView_formset_valid_def Let_def)
  show "get_by_pk alloc_pk
          (allocations (snd (AllocationRenewView_dispatch renewal_enabled api req pk st))) pk
        = Some ?a'"
    unfolding d using g
    by (simp add: AllocationRenewView_formset_valid_def Let_def save_allocation_def
        send_mail_def add_message_def)
qed

theorem AllocationRenewView_dispatch_renewal_witness:
  "get_by_pk alloc_pk (allocations example_state) 2 = Some example_new_allocation
   \<and> get_by_pk alloc_pk (allocations example_state) 1 = Some example_active_allocation
   \<and> get_by_pk proj_pk (projects example_state) 1 = Some example_project
   \<and> alloc_status example_new_allocation \<noteq> ''Active''
   \<and> (\<exists>url msg. AllocationRenewView_dispatch True example_api example_renewal 2 example_state
         = (Inr (HttpResponseRedirect url),
            example_state\<lparr>messages := messages example_state @ [(ERROR, msg)]\<rparr>))
   \<and> alloc_status example_active_allocation = ''Active''
   \<and> expires_in example_api example_active_allocation \<le> 60
   \<and> review_formset_is_valid
        (AllocationRenewView_get_formset_queryset example_state example_active_allocation
           example_project example_pi)
        (req_forms example_renewal)
   \<and> fst (AllocationRenewView_dispatch True example_api example_renewal 1 example_state)
       = Inr (HttpResponseRedirect (absolute_url_of_allocation 1))
   \<and> get_by_pk alloc_pk
        (allocations (snd (AllocationRenewView_dispatch True example_api example_renewal 1
                             example_state))) 1
       = Some (example_active_allocation\<lparr>alloc_status := ''Renewal Requested''\<rparr>)"
proof -
  have a2: "get_by_pk alloc_pk (allocations example_state) 2 = Some example_new_allocation"
    and a1: "get_by_pk alloc_pk (allocations example_state) 1 = Some example_active_allocation"
    by (simp_all add: example_state_def get_by_pk_def example_active_allocation_def
        example_new_allocation_def)
  have p2: "get_by_pk proj_pk (projects example_state) (alloc_project example_new_allocation)
            = Some example_project"
    and p1: "get_by_pk proj_pk (projects example_state)
               (alloc_project example_active_allocation) = Some example_project"
    and p: "get_by_pk proj_pk (projects example_state) 1 = Some example_project"
    by (simp_all add: example_state_def get_by_pk_def example_active_allocation_def
        example_new_allocation_def example_project_def)
  have s2: "alloc_status example_new_allocation \<noteq> ''Active''"
    and s1: "alloc_status example_active_allocation = ''Active''"
    by (simp_all add: example_new_allocation_def example_active_allocation_def)
  have api: "\<not> needs_review example_api example_project"
    "expires_in example_api example_active_allocation \<le> 60"
    "has_manager_perm example_api example_state example_active_allocation example_pi"
    by (simp_all add: example_api_def example_pi_def)
  have req: "req_method example_renewal = POST" "req_user example_renewal = Some example_pi"
    by (simp_all add: example_renewal_def)
  have v: "review_formset_is_valid
        (AllocationRenewView_get_formset_queryset example_state example_active_allocation
           example_project example_pi)
        (req_forms example_renewal)"
    by (simp add: review_formset_is_valid_def review_form_is_valid_def
        AllocationRenewView_get_formset_queryset_def allocationuser_set_def example_state_def
        example_active_allocation_def example_project_def example_pi_def example_renewal_def
        ALLOCATION_REVIEW_USER_CHOICES_def)
  show ?thesis
    using AllocationRenewView_dispatch_renewal[OF a2 p2, of True example_api example_renewal]
      AllocationRenewView_dispatch_renewal[OF a1 p1, of True example_api example_renewal
        example_pi]
      a1 a2 p s1 s2 api req v
    by blast
qed


section \<open>Properties of \<open>AllocationForm.clean\<close>\<close>

text \<open>
  C6, as the code has it. The request names a project and a resource whose
  \<open>allocation_limit\<close> is set and is not 0, and the check of the account name does not
  raise. Then \<open>clean\<close> raises \<open>Your project is at the allocation limit allowed for this
  resource.\<close> exactly when the limit is at most the number of the project's allocations
  to that resource whose status is one of \<open>Active\<close>, \<open>New\<close>, \<open>Renewal Requested\<close>,
  \<open>Paid\<close>, \<open>Payment Pending\<close>, \<open>Payment Requested\<close>.
\<close>

theorem AllocationForm_clean_allocation_limit:
  assumes "fd_resource form_data = Some resource_obj"
      and "fd_project form_data = Some project_obj"
      and "res_allocation_limit resource_obj = Some allocation_limit"
      and "allocation_limit \<noteq> 0"
      and "\<not> needs_account_name cfg attribute_types resource_obj
               (fd_allocation_account form_data)"
  shows "(AllocationForm_clean cfg attribute_types st form_data
            = Inr (Inl (ValidationError
                ''Your project is at the allocation limit allowed for this resource.'')))
         = (allocation_limit \<le> int (length
              (filter (\<lambda>a. alloc_project a = proj_pk project_obj
                          \<and> res_pk resource_obj \<in> set (alloc_resources a)
                          \<and> alloc_status a \<in> set [''Active'', ''New'', ''Renewal Requested'',
                                                   ''Paid'', ''Payment Pending'',
                                                   ''Payment Requested''])
                 (allocations st))))"
proof -
  have c: "allocation_count st project_obj resource_obj = length
              (filter (\<lambda>a. alloc_project a = proj_pk project_obj
                          \<and> res_pk resource_obj \<in> set (alloc_resources a)
                          \<and> alloc_status a \<in> set [''Active'', ''New'', ''Renewal Requested'',
                                                   ''Paid'', ''Payment Pending'',
                                                   ''Payment Requested''])
                 (allocations st))"
    unfolding allocation_count_def allocation_set_def filter_filter
    by (rule arg_cong[where f=length], rule filter_cong) auto
  show ?thesis
    using assms unfolding c[symmetric]
    by (simp add: AllocationForm_clean_def truthy_int_def reached_allocation_limit_def Let_def)
qed

theorem AllocationForm_clean_allocation_limit_witness:
  "fd_resource example_allocation_request = Some example_resource
   \<and> fd_project example_allocation_request = Some example_project
   \<and> res_allocation_limit example_resource = Some 1
   \<and> \<not> needs_account_name example_settings [''slurm_account_name''] example_resource
          (fd_allocation_account example_allocation_request)
   \<and> AllocationForm_clean example_settings [''slurm_account_name''] example_state
        example_allocation_request
       = Inr (Inl (ValidationError
           ''Your project is at the allocation limit allowed for this resource.''))"
proof -
  have h1: "fd_resource example_allocation_request = Some example_resource"
    and h2: "fd_project example_allocation_request = Some example_project"
    by (simp_all add: example_allocation_request_def)
  have h3: "res_allocation_limit example_resource = Some 1"
    by (simp add: example_resource_def)
  have h4: "(1::int) \<noteq> 0" by simp
  have h5: "\<not> needs_account_name example_settings [''slurm_account_name''] example_resource
               (fd_allocation_account example_allocation_request)"
    by (simp add: needs_account_name_def example_settings_def)
  have n: "(1::int) \<le> int (length
              (filter (\<lambda>a. alloc_project a = proj_pk example_project
                          \<and> res_pk example_resource \<in> set (alloc_resources a)
                          \<and> alloc_status a \<in> set [''Active'', ''New'', ''Renewal Requested'',
                                                   ''Paid'', ''Payment Pending'',
                                                   ''Payment Requested''])
                 (allocations example_state)))"
    by (simp add: example_state_def example_project_def example_resource_def
        example_active_allocation_def example_new_allocation_def)
  show ?thesis
    using AllocationForm_clean_allocation_limit[OF h1 h2 h3 h4 h5, of example_state]
      h1 h2 h3 h5 n
    by blast
qed

text \<open>
  C6 as stated fails in two ways, both with the project at the limit. With the
  allocation accounts enabled and no account name, the check before it raises its own
  error; and with the limit 0 the test \<open>if allocation_limit:\<close> skips the check, so the
  form passes.
\<close>

theorem AllocationForm_clean_no_limit_error:
  "AllocationForm_clean (example_settings\<lparr>ALLOCATION_ACCOUNT_ENABLED := True\<rparr>)
     [''slurm_account_name''] example_state example_allocation_request
     = Inr (Inl user_has_no_account_name)
   \<and> user_has_no_account_name \<noteq> reached_allocation_limit
   \<and> int (allocation_count example_state example_project example_resource) \<ge> 1
   \<and> AllocationForm_clean example_settings [''slurm_account_name''] example_state
       example_unlimited_request = Inr (Inr ''New'')
   \<and> int (allocation_count example_state example_project
            (example_resource\<lparr>res_allocation_limit := Some 0\<rparr>)) \<ge> 0"
  by (simp add: AllocationForm_clean_def needs_account_name_def example_settings_def
      example_allocation_request_def example_unlimited_request_def example_resource_def
      truthy_str_def truthy_int_def user_has_no_account_name_def reached_allocation_limit_def
      allocation_count_def allocation_set_def example_state_def example_project_def
      example_active_allocation_def example_new_allocation_def)

section \<open>Properties of \<open>AllocationChangeDetailView.post\<close>\<close>

text \<open>No cleaned form of the formset has the key \<open>allocation\<close>.\<close>

lemma cleaned_form_has_no_allocation:
  assumes "AllocationAttributeChangeRequestForm_clean attribute_clean
             (attribute_change_fields st qs posted) = Inr form"
  shows "map_of (acf_cleaned_data form) ''allocation'' = None"
  using assms
  by (auto simp: AllocationAttributeChangeRequestForm_clean_def attribute_change_fields_def
      Let_def update_conv' split: prod.splits option.splits cd_value.splits if_splits)

lemma clean_attribute_forms_no_allocation:
  assumes "clean_attribute_forms attribute_clean st qs posted = Inr forms"
  shows "\<forall>f\<in>set forms. map_of (acf_cleaned_data f) ''allocation'' = None"
  using assms
proof (induction posted arbitrary: forms)
  case Nil
  then show ?case by simp
next
  case (Cons p ps)
  then show ?case
    by (auto split: sum.splits dest: cleaned_form_has_no_allocation)
qed

lemma apply_attribute_changes_raises:
  assumes "map_of (acf_cleaned_data form) ''allocation'' = None"
  shows "fst (apply_attribute_changes (form # rest) st) = Inl AttributeError"
  using assms by (simp add: Let_def split: option.splits cd_value.splits)

lemma after_apply_attribute_changes:
  assumes "fst (apply_attribute_changes forms s) = Inl AttributeError"
  shows "fst (case apply_attribute_changes forms s of
                (Inl e, st2) \<Rightarrow> (Inl e, st2)
              | (Inr u, st2) \<Rightarrow> F u st2) = Inl AttributeError"
  using assms by (cases "apply_attribute_changes forms s") auto

lemma approve_change_request_raises:
  assumes "forms \<noteq> []"
    and "\<forall>f\<in>set forms. map_of (acf_cleaned_data f) ''allocation'' = None"
  shows "\<exists>e. fst (approve_change_request obj forms redirect st) = Inl e"
proof -
  obtain form rest where f: "forms = form # rest" using assms(1) by (cases forms) auto
  have r: "\<And>s. fst (apply_attribute_changes forms s) = Inl AttributeError"
    unfolding f using assms(2) f apply_attribute_changes_raises by simp
  show ?thesis
    by (simp add: approve_change_request_def Let_def after_apply_attribute_changes[OF r]
        split: option.splits)
qed

text \<open>
  So no approval that posts at least one form of the formset ends with the redirect:
  the formset is invalid or the request ends in an exception.
\<close>

lemma approve_with_attribute_changes_never_redirects:
  assumes "is_superuser request_user"
    and "post_action posted = Some ''approve''"
    and "get_by_pk acr_pk (allocation_change_requests st) pk = Some obj"
    and "post_attribute_forms posted \<noteq> []"
  shows "\<forall>url. fst (AllocationChangeDetailView_post extension_days attribute_clean
                      request_user pk posted st) \<noteq> Inr (HttpResponseRedirect url)"
proof -
  let ?qs = "filter (\<lambda>r. aacr_change_request r = acr_pk obj)
               (allocation_attribute_change_requests st)"
  show ?thesis
  proof (cases "clean_attribute_forms attribute_clean st ?qs (post_attribute_forms posted)")
    case (Inl e)
    then show ?thesis using assms
      by (auto simp: AllocationChangeDetailView_post_def Let_def split: option.splits)
  next
    case (Inr forms)
    have ne: "forms \<noteq> []" using Inr assms(4)
      by (cases "post_attribute_forms posted") (auto split: sum.splits)
    have na: "\<forall>f\<in>set forms. map_of (acf_cleaned_data f) ''allocation'' = None"
      using clean_attribute_forms_no_allocation[OF Inr] .
    have a: "\<And>o' r s u. fst (approve_change_request o' forms r s) \<noteq> Inr u"
      using approve_change_request_raises[OF ne na] by (metis sum.distinct(1))
    show ?thesis using assms Inr a
      by (auto simp: AllocationChangeDetailView_post_def Let_def
          AllocationChangeDetailView_formset_invalid_def split: option.splits)
  qed
qed

text \<open>
  C4, at the input where the code and the claim part. The change request is pending,
  both forms validate, and the superuser approves. The loop over the forms reads
  \<open>form_data.get("allocation")\<close>, which no field of the form provides, writes the first
  attribute and raises \<open>AttributeError\<close> at \<open>allocation.pk\<close>: there is no response, and
  the second attribute keeps its value 20 although the change to 25 was requested.
\<close>

theorem AllocationChangeDetailView_post_approve_raises:
  "fst (AllocationChangeDetailView_post [30, 60] (\<lambda>a. None) example_admin 1
          example_change_approval example_state) = Inl AttributeError
   \<and> map attr_value
        (allocation_attributes
           (snd (AllocationChangeDetailView_post [30, 60] (\<lambda>a. None) example_admin 1
                   example_change_approval example_state)))
       = [''15'', ''20'']
   \<and> map new_value
        (filter (\<lambda>r. aacr_change_request r = 1)
           (allocation_attribute_change_requests example_state))
       = [''15'', ''25'']"
  by code_simp

theorem AllocationChangeDetailView_post_approve_raises_witness:
  "fst (AllocationChangeDetailView_post [30, 60] (\<lambda>a. None) example_admin 1
          example_change_approval example_state)
   \<noteq> Inr (HttpResponseRedirect (reverse ''allocation-change-detail'' (Some 1)))"
  using AllocationChangeDetailView_post_approve_raises by simp

end
